theory Spec2Isabelle
  imports Complex_Main "HOL-Library.Multiset"
begin

section \<open>Numbers\<close>

text \<open>
  A JavaScript number is an IEEE double. The model takes the finite ones as exact reals
  (rounding error of the double arithmetic is not modelled) and keeps the three
  non-finite values that a division can produce, so that \<open>x / 0\<close> is what the program
  computes and not HOL's \<open>0\<close>.
\<close>

datatype jsnum = Num real | PosInf | NegInf | NaN

text \<open>\<open>a / b\<close> on two finite numbers.\<close>

definition js_div :: "real \<Rightarrow> real \<Rightarrow> jsnum" where
  "js_div a b =
     (if b \<noteq> 0 then Num (a / b)
      else if a > 0 then PosInf
      else if a < 0 then NegInf
      else NaN)"

text \<open>\<open>x * c\<close> for a finite constant \<open>c > 0\<close>, and \<open>x / c\<close> likewise.\<close>

fun js_scale :: "jsnum \<Rightarrow> real \<Rightarrow> jsnum" where
  "js_scale (Num a) c = Num (a * c)"
| "js_scale PosInf c = PosInf"
| "js_scale NegInf c = NegInf"
| "js_scale NaN c = NaN"

text \<open>\<open>x > y\<close>: false as soon as one side is NaN.\<close>

fun js_gt :: "jsnum \<Rightarrow> jsnum \<Rightarrow> bool" where
  "js_gt (Num a) (Num b) = (a > b)"
| "js_gt PosInf (Num b) = True"
| "js_gt PosInf NegInf = True"
| "js_gt (Num a) NegInf = True"
| "js_gt x y = False"

text \<open>\<open>Math.round\<close>: the nearest integer, a tie going up.\<close>

definition Math_round :: "real \<Rightarrow> real" where
  "Math_round x = of_int \<lfloor>x + 1 / 2\<rfloor>"

text \<open>\<open>Math.round(x * 100) / 100\<close>, as \<open>reportResults\<close> applies it to both speeds.\<close>

fun round2 :: "jsnum \<Rightarrow> jsnum" where
  "round2 (Num a) = Num (Math_round (a * 100) / 100)"
| "round2 x = x"

section \<open>Data, effects and environment\<close>

datatype ptype = Http | Socks4 | Socks5

record proxy =
  type :: ptype
  url :: string

text \<open>
  A transport handle. The constructors of the two agent libraries are not part of the
  repository; all the program does with a handle is pass it to \<open>fetch\<close> and
  \<open>WebSocket\<close>, so a handle is the record of how it was built.
\<close>

datatype agent = HttpsProxyAgent string | SocksProxyAgent string nat

record location =
  latitude :: real
  longitude :: real

record payload = location +
  download_speed :: jsnum
  upload_speed :: jsnum

text \<open>Every outbound effect of the program, in the order it happens.\<close>

datatype action =
    ProxyCheck agent
  | Sleep nat
  | GetProfile "agent option"
  | GetLocate "agent option"
  | WsConnect string "agent option"
  | PostPoints "agent option" payload

fun is_ProxyCheck :: "action \<Rightarrow> bool" where
  "is_ProxyCheck (ProxyCheck a) = True"
| "is_ProxyCheck x = False"

fun is_WsConnect :: "action \<Rightarrow> bool" where
  "is_WsConnect (WsConnect u a) = True"
| "is_WsConnect x = False"

fun is_PostPoints :: "action \<Rightarrow> bool" where
  "is_PostPoints (PostPoints a p) = True"
| "is_PostPoints x = False"

text \<open>
  The mutable globals: \<open>config.proxy.*\<close>, \<open>proxyList\<close>, and the trace of effects
  (newest last). \<open>proxy_currentIndex\<close> and \<open>proxyList\<close> exist in the single-account
  client only.
\<close>

record world =
  proxy_enabled :: bool
  proxy_type :: ptype
  proxy_url :: string
  proxy_currentIndex :: nat
  proxyList :: "proxy list"
  trace :: "action list"

text \<open>The number of liveness checks in the trace.\<close>

definition probes :: "world \<Rightarrow> nat" where
  "probes w = length (filter is_ProxyCheck (trace w))"

text \<open>\<open>config.proxy.maxRetries\<close>, never assigned after initialisation.\<close>

definition maxRetries :: nat where
  "maxRetries = 3"

datatype error =
    TokenNotFound
  | TokenExpired
  | TokenInvalid
  | AllProxiesFailed
  | LocateFailed nat
  | NoServer
  | ReportFailed nat
  | ReportRejected "string option"
  | Thrown

text \<open>
  \<open>Thrown\<close> stands for an exception raised by a library call: a rejected \<open>fetch\<close> or
  \<open>json()\<close>, a constructor that throws, a property read on \<open>undefined\<close>.

  What \<open>fetch\<close> gives: a rejection, or a response with its \<open>ok\<close> flag, its status and
  the value of \<open>json()\<close> (\<open>None\<close> when \<open>json()\<close> rejects).
\<close>

datatype 'b response = NetworkError | Response bool nat "'b option"

record server =
  machine :: string
  urls :: "(string \<rightharpoonup> string) option"

text \<open>\<open>results\<close> absent or empty is \<open>[]\<close>; \<open>urls\<close> absent is \<open>None\<close>.\<close>

record serverData =
  results :: "server list"

record report_reply =
  success :: bool
  message :: "string option"

text \<open>
  The decoded token payload; \<open>exp\<close> may be absent. The field is \<open>exp_claim\<close> here, \<open>exp\<close>
  being the exponential function of the library.
\<close>

record tokenData =
  exp_claim :: "real option"

record tcpinfo =
  BytesReceived :: real
  ElapsedTime :: real

text \<open>
  A text message as the handlers see it: \<open>JSON.parse\<close> throws on it, or it is an object
  with or without a \<open>TCPInfo\<close> member.
\<close>

datatype text_frame = Unparsable | Measurement "tcpinfo option"

text \<open>
  What the \<open>ws\<close> connection delivers to the callbacks. A message is \<open>OnText\<close> when
  \<open>typeof data === 'string'\<close> and \<open>OnBinary\<close> with its \<open>data.length\<close> otherwise; the
  integer is the value of \<open>Date.now()\<close> inside the callback, in milliseconds.
  \<open>OnSendData op now n\<close> is one run of the upload's \<open>sendData\<close>: \<open>op\<close> tells whether
  \<open>ws.readyState === WebSocket.OPEN\<close>, and \<open>n\<close> is the number of buffers the inner
  \<open>while (ws.bufferedAmount < 1024 * 1024)\<close> loop sends in this run, which the socket's
  backlog decides.
\<close>

datatype ws_event =
    OnOpen int
  | OnText text_frame
  | OnBinary nat int
  | OnSendData bool int nat
  | OnClose
  | OnError

text \<open>
  The network and the libraries. A reply may depend on everything done so far, so each
  request takes the trace at the moment it is made.
\<close>

record env =
  https_agent_throws :: "string \<Rightarrow> bool"
  socks_agent_throws :: "string \<Rightarrow> bool"
  fetch_testUrl :: "action list \<Rightarrow> agent \<Rightarrow> unit response"
  fetch_profile :: "action list \<Rightarrow> agent option \<Rightarrow> unit response"
  fetch_locate :: "action list \<Rightarrow> agent option \<Rightarrow> serverData response"
  post_points :: "action list \<Rightarrow> agent option \<Rightarrow> payload \<Rightarrow> report_reply response"
  websocket_throws :: "string \<Rightarrow> bool"
  download_created :: int
  download_events :: "ws_event list"
  upload_created :: int
  upload_events :: "ws_event list"
  atob_JSON_parse :: "string \<Rightarrow> tokenData option"

text \<open>
  How an asynchronous computation ends: it settles with a value, it never settles, or a
  callback throws outside every \<open>try\<close> and the exception reaches the event loop.
\<close>

datatype 'a outcome = Resolved 'a | Pending | Uncaught

section \<open>Proxy pool of the single-account client\<close>

text \<open>
  \<open>s.startsWith(p)\<close> and \<open>s.includes(p)\<close> on strings (\<open>includes\<close> is a keyword of
  Isabelle, hence the suffix).
\<close>

definition startsWith :: "string \<Rightarrow> string \<Rightarrow> bool" where
  "startsWith s p = (take (length p) s = p)"

definition includes_str :: "string \<Rightarrow> string \<Rightarrow> bool" where
  "includes_str s p = list_ex (\<lambda>i. take (length p) (drop i s) = p) [0..<Suc (length s)]"

text \<open>
  The callback that \<open>loadProxiesFromFile\<close> maps over the lines of \<open>proxy.txt\<close>; the
  argument is the trimmed line.
\<close>

definition proxyOfLine :: "string \<Rightarrow> proxy" where
  "proxyOfLine line =
     (if startsWith line ''socks4://'' then \<lparr>type = Socks4, url = line\<rparr>
      else if startsWith line ''socks5://'' then \<lparr>type = Socks5, url = line\<rparr>
      else if \<not> includes_str line ''://'' then \<lparr>type = Http, url = ''http://'' @ line\<rparr>
      else \<lparr>type = Http, url = line\<rparr>)"

text \<open>
  \<open>getNextProxy\<close>. An index outside the array reads \<open>undefined\<close> in JavaScript; the
  cursor is advanced all the same. \<open>null\<close> and \<open>undefined\<close> are both \<open>None\<close>: the only
  caller tests \<open>!proxy\<close>.
\<close>

definition getNextProxy :: "world \<Rightarrow> proxy option \<times> world" where
  "getNextProxy w =
     (if length (proxyList w) = 0 then (None, w)
      else
        let proxy = (if proxy_currentIndex w < length (proxyList w)
                     then Some (proxyList w ! proxy_currentIndex w) else None)
        in (proxy,
            w\<lparr>proxy_currentIndex := (proxy_currentIndex w + 1) mod length (proxyList w)\<rparr>))"

text \<open>\<open>n\<close> consecutive calls of \<open>getNextProxy\<close>: the values returned, in order.\<close>

fun getNextProxy_times :: "nat \<Rightarrow> world \<Rightarrow> proxy option list \<times> world" where
  "getNextProxy_times 0 w = ([], w)"
| "getNextProxy_times (Suc n) w =
     (case getNextProxy w of (p, w1) \<Rightarrow>
        (case getNextProxy_times n w1 of (ps, w2) \<Rightarrow> (p # ps, w2)))"

text \<open>
  The \<open>try\<close> block shared by both \<open>createProxyAgent\<close> functions: type \<open>'http'\<close> builds
  an \<open>HttpsProxyAgent\<close>, anything else a \<open>SocksProxyAgent\<close> of version 4 or 5; an
  exception of the constructor is logged and \<open>undefined\<close> returned.
\<close>

definition buildAgent :: "env \<Rightarrow> ptype \<Rightarrow> string \<Rightarrow> agent option" where
  "buildAgent E t u =
     (if t = Http then
        (if https_agent_throws E u then None else Some (HttpsProxyAgent u))
      else
        (if socks_agent_throws E u then None
         else Some (SocksProxyAgent u (if t = Socks4 then 4 else 5))))"

definition createProxyAgent_single :: "env \<Rightarrow> world \<Rightarrow> agent option \<times> world" where
  "createProxyAgent_single E w =
     (case getNextProxy w of
        (None, w1) \<Rightarrow> (None, w1)
      | (Some proxy, w1) \<Rightarrow>
          (buildAgent E (type proxy) (url proxy),
           w1\<lparr>proxy_type := type proxy, proxy_url := url proxy\<rparr>))"

text \<open>
  \<open>isProxyAlive\<close> of the single-account client: true when the response is \<open>ok\<close> and its
  body is read (\<open>json()\<close> resolves and \<open>data.ip\<close> can be read); every exception gives
  false. The multi-account client looks at \<open>ok\<close> only.
\<close>

definition isProxyAlive_single :: "env \<Rightarrow> agent \<Rightarrow> world \<Rightarrow> bool \<times> world" where
  "isProxyAlive_single E a w =
     ((case fetch_testUrl E (trace w) a of
         NetworkError \<Rightarrow> False
       | Response ok status body \<Rightarrow> ok \<and> body \<noteq> None),
      w\<lparr>trace := trace w @ [ProxyCheck a]\<rparr>)"

text \<open>
  The \<open>while\<close> loop of \<open>getProxyAgent\<close>. Nothing inside its \<open>try\<close> throws
  (\<open>createProxyAgent\<close> and \<open>isProxyAlive\<close> catch their own exceptions), so the \<open>catch\<close>
  is never entered.
\<close>

function getProxyAgent_loop ::
  "env \<Rightarrow> nat \<Rightarrow> nat \<Rightarrow> nat \<Rightarrow> world \<Rightarrow> (error + agent option) \<times> world" where
  "getProxyAgent_loop E retries initialIndex attempts w =
     (if attempts < retries * length (proxyList w) then
        (case createProxyAgent_single E w of
           (None, w1) \<Rightarrow> (Inr None, w1)
         | (Some a, w1) \<Rightarrow>
             (if fst (isProxyAlive_single E a w1) then (Inr (Some a), snd (isProxyAlive_single E a w1))
              else
                getProxyAgent_loop E retries initialIndex (attempts + 1)
                  (if proxy_currentIndex w1 = initialIndex
                   then (snd (isProxyAlive_single E a w1))
                          \<lparr>trace := trace (snd (isProxyAlive_single E a w1)) @
                             [Sleep (1000 * (attempts div length (proxyList w1) + 1))]\<rparr>
                   else snd (isProxyAlive_single E a w1))))
      else (Inl AllProxiesFailed, w))"
  by pat_completeness auto
termination
  by (relation "measure (\<lambda>(E, retries, initialIndex, attempts, w).
                   retries * length (proxyList w) - attempts)")
     (auto simp: createProxyAgent_single_def getNextProxy_def isProxyAlive_single_def Let_def
           split: if_splits option.splits prod.splits)

declare getProxyAgent_loop.simps [simp del]

definition getProxyAgent_single :: "env \<Rightarrow> nat \<Rightarrow> world \<Rightarrow> (error + agent option) \<times> world" where
  "getProxyAgent_single E retries w =
     (if \<not> proxy_enabled w \<or> length (proxyList w) = 0 then (Inr None, w)
      else getProxyAgent_loop E retries (proxy_currentIndex w) 0 w)"


text \<open>Every liveness check of the single-account client fails, whatever agent is checked and whenever.\<close>

definition every_check_fails :: "env \<Rightarrow> bool" where
  "every_check_fails E = (\<forall>a w. \<not> fst (isProxyAlive_single E a w))"

section \<open>Proxy handling of the multi-account client\<close>

text \<open>The multi-account client has one proxy, held in \<open>config.proxy.url\<close>.\<close>

definition createProxyAgent_multi :: "env \<Rightarrow> world \<Rightarrow> agent option" where
  "createProxyAgent_multi E w =
     (if proxy_url w = [] then None else buildAgent E (proxy_type w) (proxy_url w))"

definition isProxyAlive_multi :: "env \<Rightarrow> agent \<Rightarrow> world \<Rightarrow> bool \<times> world" where
  "isProxyAlive_multi E a w =
     ((case fetch_testUrl E (trace w) a of
         NetworkError \<Rightarrow> False
       | Response ok status body \<Rightarrow> ok),
      w\<lparr>trace := trace w @ [ProxyCheck a]\<rparr>)"

text \<open>
  The \<open>for\<close> loop of the multi-account \<open>getProxyAgent\<close>; its \<open>catch\<close> is never
  entered either, and the loop running out returns \<open>undefined\<close>.
\<close>

function getProxyAgent_multi_loop ::
  "env \<Rightarrow> nat \<Rightarrow> nat \<Rightarrow> world \<Rightarrow> (error + agent option) \<times> world" where
  "getProxyAgent_multi_loop E retries i w =
     (if i < retries then
        (case createProxyAgent_multi E w of
           None \<Rightarrow> (Inr None, w)
         | Some a \<Rightarrow>
             (if fst (isProxyAlive_multi E a w) then (Inr (Some a), snd (isProxyAlive_multi E a w))
              else
                getProxyAgent_multi_loop E retries (i + 1)
                  ((snd (isProxyAlive_multi E a w))
                     \<lparr>trace := trace (snd (isProxyAlive_multi E a w)) @ [Sleep (1000 * (i + 1))]\<rparr>)))
      else (Inr None, w))"
  by pat_completeness auto
termination
  by (relation "measure (\<lambda>(E, retries, i, w). retries - i)") auto

declare getProxyAgent_multi_loop.simps [simp del]

definition getProxyAgent_multi :: "env \<Rightarrow> nat \<Rightarrow> world \<Rightarrow> (error + agent option) \<times> world" where
  "getProxyAgent_multi E retries w =
     (if \<not> proxy_enabled w then (Inr None, w)
      else getProxyAgent_multi_loop E retries 0 w)"

section \<open>Session gate\<close>

text \<open>
  The test \<open>(tokenData.exp - 90) * 1000 < Date.now()\<close>; with \<open>exp\<close> absent the left side
  is NaN and the comparison false.
\<close>

definition token_expired :: "tokenData \<Rightarrow> int \<Rightarrow> bool" where
  "token_expired tokenData now =
     (case exp_claim tokenData of
        None \<Rightarrow> False
      | Some e \<Rightarrow> (e - 90) * 1000 < of_int now)"

text \<open>
  The body of the \<open>try\<close> in \<open>validateToken\<close>, the same in both clients; \<open>acquire\<close> is
  the client's \<open>getProxyAgent\<close> and \<open>now\<close> the value of \<open>Date.now()\<close>.
\<close>

definition validateToken_try ::
  "(world \<Rightarrow> (error + agent option) \<times> world) \<Rightarrow> env \<Rightarrow> string \<Rightarrow> int \<Rightarrow> world \<Rightarrow>
   (error + unit) \<times> world" where
  "validateToken_try acquire E token now w =
     (case atob_JSON_parse E token of
        None \<Rightarrow> (Inl Thrown, w)
      | Some tokenData \<Rightarrow>
          (if token_expired tokenData now then (Inl TokenExpired, w)
           else
             (case acquire w of
                (Inl e, w1) \<Rightarrow> (Inl e, w1)
              | (Inr proxyAgent, w1) \<Rightarrow>
                  (case fetch_profile E (trace w1) proxyAgent of
                     NetworkError \<Rightarrow> (Inl Thrown, w1\<lparr>trace := trace w1 @ [GetProfile proxyAgent]\<rparr>)
                   | Response ok status body \<Rightarrow>
                       (if \<not> ok then (Inl TokenInvalid, w1\<lparr>trace := trace w1 @ [GetProfile proxyAgent]\<rparr>)
                        else (Inr (), w1\<lparr>trace := trace w1 @ [GetProfile proxyAgent]\<rparr>))))))"

text \<open>
  Multi-account client: an empty token throws out of the function; every other failure
  is caught, logged, and \<open>false\<close> returned.
\<close>

definition validateToken_multi :: "env \<Rightarrow> string \<Rightarrow> int \<Rightarrow> world \<Rightarrow> (error + bool) \<times> world" where
  "validateToken_multi E token now w =
     (if token = [] then (Inl TokenNotFound, w)
      else
        (case validateToken_try (getProxyAgent_multi E maxRetries) E token now w of
           (Inl e, w1) \<Rightarrow> (Inr False, w1)
         | (Inr u, w1) \<Rightarrow> (Inr True, w1)))"

text \<open>Single-account client: the \<open>catch\<close> logs and rethrows.\<close>

definition validateToken_single :: "env \<Rightarrow> string \<Rightarrow> int \<Rightarrow> world \<Rightarrow> (error + unit) \<times> world" where
  "validateToken_single E token now w =
     (if token = [] then (Inl TokenNotFound, w)
      else validateToken_try (getProxyAgent_single E maxRetries) E token now w)"

section \<open>Measurement location\<close>

text \<open>
  \<open>generateRandomLocation\<close>; the two arguments are the two values of \<open>Math.random()\<close>,
  each in \<open>[0, 1)\<close>.
\<close>

definition generateRandomLocation :: "real \<Rightarrow> real \<Rightarrow> location" where
  "generateRandomLocation r1 r2 =
     (let minLat = 18; maxLat = 5355 / 100; minLng = 7366 / 100; maxLng = 13505 / 100;
          lat = minLat + r1 * (maxLat - minLat);
          lng = minLng + r2 * (maxLng - minLng)
      in \<lparr>latitude = Math_round (lat * 1000000) / 1000000,
          longitude = Math_round (lng * 1000000) / 1000000\<rparr>)"

section \<open>Throughput measurement\<close>

text \<open>
  The variables the callbacks of one phase close over. \<open>speed\<close> is \<open>downloadSpeed\<close> in
  the download phase and \<open>uploadSpeed\<close> in the upload phase; \<open>sending\<close> tells whether a
  run of \<open>sendData\<close> is outstanding; \<open>closeCalls\<close> counts the calls of \<open>ws.close()\<close>.
  \<open>lastMeasurement\<close> is written and never read, and is left out.
\<close>

record meas =
  startTime :: int
  totalBytes :: nat
  speed :: jsnum
  sending :: bool
  closeCalls :: nat

definition meas_init :: "int \<Rightarrow> meas" where
  "meas_init created =
     \<lparr>startTime = created, totalBytes = 0, speed = Num 0, sending = False, closeCalls = 0\<rparr>"

text \<open>\<open>(totalBytes * 8) / (duration * 1000000)\<close> with \<open>duration = (now - startTime) / 1000\<close>.\<close>

definition duration_of :: "meas \<Rightarrow> int \<Rightarrow> real" where
  "duration_of st now = of_int (now - startTime st) / 1000"

definition client_speed :: "nat \<Rightarrow> real \<Rightarrow> jsnum" where
  "client_speed bytes duration = Num ((of_nat bytes * 8) / (duration * 1000000))"

text \<open>
  The \<open>open\<close> and \<open>message\<close> callbacks of the download phase. \<open>JSON.parse\<close> of a text
  message is not inside a \<open>try\<close>: when it throws, the result is \<open>None\<close>.
\<close>

fun download_on :: "ws_event \<Rightarrow> meas \<Rightarrow> meas option" where
  "download_on (OnOpen now) st = Some (st\<lparr>startTime := now, totalBytes := 0\<rparr>)"
| "download_on (OnText Unparsable) st = None"
| "download_on (OnText (Measurement m)) st = Some st"
| "download_on (OnBinary len now) st =
     (let st1 = st\<lparr>totalBytes := totalBytes st + len\<rparr>;
          duration = duration_of st1 now
      in if duration \<ge> 10
         then Some (st1\<lparr>speed := client_speed (totalBytes st1) duration,
                        closeCalls := closeCalls st1 + 1\<rparr>)
         else Some st1)"
| "download_on e st = Some st"

text \<open>
  The promise of a phase settles at the first \<open>close\<close> or \<open>error\<close> event, with the
  variables as they are then (the phase's result is \<open>speed\<close>); no message is delivered
  after either.
\<close>

fun download_run :: "meas \<Rightarrow> ws_event list \<Rightarrow> meas outcome" where
  "download_run st [] = Pending"
| "download_run st (OnClose # es) = Resolved st"
| "download_run st (OnError # es) = Resolved st"
| "download_run st (e # es) =
     (case download_on e st of
        None \<Rightarrow> Uncaught
      | Some st1 \<Rightarrow> download_run st1 es)"

text \<open>
  The callbacks of the upload phase. \<open>open\<close> resets the counters and starts \<open>sendData\<close>,
  whose first run is the next \<open>OnSendData\<close>; a run that finds the connection not open,
  or the ten seconds over, does not schedule another one. The message callback catches
  whatever \<open>JSON.parse\<close> or the reads of the message throw.
\<close>

fun upload_on :: "ws_event \<Rightarrow> meas \<Rightarrow> meas" where
  "upload_on (OnOpen now) st = st\<lparr>startTime := now, totalBytes := 0, sending := True\<rparr>"
| "upload_on (OnSendData op now n) st =
     (if \<not> sending st then st
      else if \<not> op then st\<lparr>sending := False\<rparr>
      else if duration_of st now \<ge> 10
        then st\<lparr>speed := client_speed (totalBytes st) (duration_of st now),
                closeCalls := closeCalls st + 1,
                sending := False\<rparr>
      else st\<lparr>totalBytes := totalBytes st + n * 32768\<rparr>)"
| "upload_on (OnText (Measurement (Some tcpInfo))) st =
     (let tmpSpeed = js_scale (js_div (BytesReceived tcpInfo) (ElapsedTime tcpInfo)) 8
      in if js_gt tmpSpeed (speed st) then st\<lparr>speed := tmpSpeed\<rparr> else st)"
| "upload_on e st = st"

fun upload_run :: "meas \<Rightarrow> ws_event list \<Rightarrow> meas outcome" where
  "upload_run st [] = Pending"
| "upload_run st (OnClose # es) = Resolved st"
| "upload_run st (OnError # es) = Resolved st"
| "upload_run st (e # es) = upload_run (upload_on e st) es"

text \<open>
  For stating properties of a phase: the bytes of the binary messages of a trace, and the
  events that can precede the ten-second cutoff of a connection opened at \<open>t0\<close> (a
  binary message handled less than 10000 ms after \<open>t0\<close>, a text message, a run of
  \<open>sendData\<close>).
\<close>

fun binary_bytes :: "ws_event list \<Rightarrow> nat" where
  "binary_bytes [] = 0"
| "binary_bytes (OnBinary len now # es) = len + binary_bytes es"
| "binary_bytes (e # es) = binary_bytes es"

fun no_cutoff :: "int \<Rightarrow> ws_event \<Rightarrow> bool" where
  "no_cutoff t0 (OnBinary len now) = (now - t0 < 10000)"
| "no_cutoff t0 (OnText f) = True"
| "no_cutoff t0 (OnSendData op now n) = True"
| "no_cutoff t0 e = False"

text \<open>The estimate a server message carries, when its elapsed time is not zero.\<close>

definition server_estimate :: "tcpinfo \<Rightarrow> real" where
  "server_estimate tcpInfo = BytesReceived tcpInfo / ElapsedTime tcpInfo * 8"

record speeds =
  downloadSpeed :: jsnum
  uploadSpeed :: jsnum

text \<open>
  The \<open>new WebSocket(url, ...)\<close> of a phase, inside the promise executor: it throws on
  an undefined or unusable url, which rejects the promise.
\<close>

definition ws_connect :: "env \<Rightarrow> string option \<Rightarrow> agent option \<Rightarrow> world \<Rightarrow> error + world" where
  "ws_connect E u proxyAgent w =
     (case u of
        None \<Rightarrow> Inl Thrown
      | Some s \<Rightarrow>
          (if websocket_throws E s then Inl Thrown
           else Inr (w\<lparr>trace := trace w @
                       [WsConnect s (if proxy_enabled w then proxyAgent else None)]\<rparr>)))"

text \<open>
  \<open>performSpeedTest\<close> up to \<open>const server = serverData.results[0]\<close>: the proxy
  acquisition and the locate request. \<open>Inl\<close> is an exception.
\<close>

definition locate_server ::
  "(world \<Rightarrow> (error + agent option) \<times> world) \<Rightarrow> env \<Rightarrow> world \<Rightarrow>
   (error + agent option \<times> server) \<times> world" where
  "locate_server acquire E w =
     (case acquire w of
        (Inl e, w1) \<Rightarrow> (Inl e, w1)
      | (Inr proxyAgent, w1) \<Rightarrow>
          (let w2 = w1\<lparr>trace := trace w1 @ [GetLocate proxyAgent]\<rparr> in
           case fetch_locate E (trace w1) proxyAgent of
             NetworkError \<Rightarrow> (Inl Thrown, w2)
           | Response ok status body \<Rightarrow>
               (if \<not> ok then (Inl (LocateFailed status), w2)
                else
                  (case body of
                     None \<Rightarrow> (Inl Thrown, w2)
                   | Some serverData \<Rightarrow>
                       (case results serverData of
                          [] \<Rightarrow> (Inl NoServer, w2)
                        | server # rest \<Rightarrow> (Inr (proxyAgent, server), w2))))))"

text \<open>The two awaited promises, one after the other.\<close>

definition download_phase ::
  "env \<Rightarrow> string option \<Rightarrow> agent option \<Rightarrow> world \<Rightarrow> (error + jsnum outcome) \<times> world" where
  "download_phase E downloadUrl proxyAgent w =
     (case ws_connect E downloadUrl proxyAgent w of
        Inl e \<Rightarrow> (Inl e, w)
      | Inr w1 \<Rightarrow>
          (Inr (map_outcome speed
                  (download_run (meas_init (download_created E)) (download_events E))), w1))"

definition upload_phase ::
  "env \<Rightarrow> string option \<Rightarrow> agent option \<Rightarrow> world \<Rightarrow> (error + jsnum outcome) \<times> world" where
  "upload_phase E uploadUrl proxyAgent w =
     (case ws_connect E uploadUrl proxyAgent w of
        Inl e \<Rightarrow> (Inl e, w)
      | Inr w1 \<Rightarrow>
          (Inr (map_outcome speed
                  (upload_run (meas_init (upload_created E)) (upload_events E))), w1))"

text \<open>
  The body of the \<open>try\<close> in \<open>performSpeedTest\<close>, the same in both clients. \<open>Inl\<close> is an
  exception reaching the \<open>catch\<close>.
\<close>

definition performSpeedTest_try ::
  "(world \<Rightarrow> (error + agent option) \<times> world) \<Rightarrow> env \<Rightarrow> world \<Rightarrow>
   (error + speeds outcome) \<times> world" where
  "performSpeedTest_try acquire E w =
     (case locate_server acquire E w of
        (Inl e, w1) \<Rightarrow> (Inl e, w1)
      | (Inr (proxyAgent, server), w1) \<Rightarrow>
          (case urls server of
             None \<Rightarrow> (Inl Thrown, w1)
           | Some us \<Rightarrow>
               (case download_phase E (us ''wss:///ndt/v7/download'') proxyAgent w1 of
                  (Inl e, w2) \<Rightarrow> (Inl e, w2)
                | (Inr Pending, w2) \<Rightarrow> (Inr Pending, w2)
                | (Inr Uncaught, w2) \<Rightarrow> (Inr Uncaught, w2)
                | (Inr (Resolved d), w2) \<Rightarrow>
                    (case upload_phase E (us ''wss:///ndt/v7/upload'') proxyAgent w2 of
                       (Inl e, w3) \<Rightarrow> (Inl e, w3)
                     | (Inr Pending, w3) \<Rightarrow> (Inr Pending, w3)
                     | (Inr Uncaught, w3) \<Rightarrow> (Inr Uncaught, w3)
                     | (Inr (Resolved u), w3) \<Rightarrow>
                         (Inr (Resolved \<lparr>downloadSpeed = d, uploadSpeed = u\<rparr>), w3)))))"

definition performSpeedTest ::
  "(world \<Rightarrow> (error + agent option) \<times> world) \<Rightarrow> env \<Rightarrow> world \<Rightarrow> speeds outcome \<times> world" where
  "performSpeedTest acquire E w =
     (case performSpeedTest_try acquire E w of
        (Inl e, w1) \<Rightarrow> (Resolved \<lparr>downloadSpeed = Num 0, uploadSpeed = Num 0\<rparr>, w1)
      | (Inr r, w1) \<Rightarrow> (r, w1))"

section \<open>Reporting and the account cycle of the multi-account client\<close>

definition reportResults_try ::
  "env \<Rightarrow> jsnum \<Rightarrow> jsnum \<Rightarrow> location \<Rightarrow> world \<Rightarrow> (error + report_reply) \<times> world" where
  "reportResults_try E d u loc w =
     (case getProxyAgent_multi E maxRetries w of
        (Inl e, w1) \<Rightarrow> (Inl e, w1)
      | (Inr proxyAgent, w1) \<Rightarrow>
          (let body = \<lparr>latitude = latitude loc, longitude = longitude loc,
                       download_speed = round2 d, upload_speed = round2 u\<rparr>;
               w2 = w1\<lparr>trace := trace w1 @ [PostPoints proxyAgent body]\<rparr>
           in case post_points E (trace w1) proxyAgent body of
                NetworkError \<Rightarrow> (Inl Thrown, w2)
              | Response ok status reply \<Rightarrow>
                  (if \<not> ok then (Inl (ReportFailed status), w2)
                   else
                     (case reply of
                        None \<Rightarrow> (Inl Thrown, w2)
                      | Some data \<Rightarrow>
                          (if success data then (Inr data, w2)
                           else (Inl (ReportRejected (message data)), w2))))))"

text \<open>\<open>reportResults\<close>: every exception is logged and \<open>null\<close> returned.\<close>

definition reportResults ::
  "env \<Rightarrow> jsnum \<Rightarrow> jsnum \<Rightarrow> location \<Rightarrow> world \<Rightarrow> report_reply option \<times> world" where
  "reportResults E d u loc w =
     (case reportResults_try E d u loc w of
        (Inl e, w1) \<Rightarrow> (None, w1)
      | (Inr data, w1) \<Rightarrow> (Some data, w1))"

text \<open>
  \<open>displayAccountInfo\<close>: it only logs, and catches everything; what is left of it is
  the proxy acquisition and the profile request.
\<close>

definition displayAccountInfo :: "env \<Rightarrow> world \<Rightarrow> world" where
  "displayAccountInfo E w =
     (case getProxyAgent_multi E maxRetries w of
        (Inl e, w1) \<Rightarrow> w1
      | (Inr proxyAgent, w1) \<Rightarrow> w1\<lparr>trace := trace w1 @ [GetProfile proxyAgent]\<rparr>)"

text \<open>
  \<open>processAccount\<close>: \<open>now\<close> is the \<open>Date.now()\<close> of the token check, \<open>r1\<close> and \<open>r2\<close> the
  two random numbers of the location.
\<close>

definition processAccount ::
  "env \<Rightarrow> string \<Rightarrow> int \<Rightarrow> real \<Rightarrow> real \<Rightarrow> world \<Rightarrow> bool outcome \<times> world" where
  "processAccount E token now r1 r2 w =
     (case validateToken_multi E token now w of
        (Inl e, w1) \<Rightarrow> (Resolved False, w1)
      | (Inr isValid, w1) \<Rightarrow>
          (if \<not> isValid then (Resolved False, w1)
           else
             (let w2 = displayAccountInfo E w1;
                  loc = generateRandomLocation r1 r2
              in case performSpeedTest (getProxyAgent_multi E maxRetries) E w2 of
                   (Pending, w3) \<Rightarrow> (Pending, w3)
                 | (Uncaught, w3) \<Rightarrow> (Uncaught, w3)
                 | (Resolved s, w3) \<Rightarrow>
                     (case reportResults E (downloadSpeed s) (uploadSpeed s) loc w3 of
                        (None, w4) \<Rightarrow> (Resolved False, w4)
                      | (Some result, w4) \<Rightarrow> (Resolved (success result), w4)))))"

section \<open>Example inputs\<close>

text \<open>Concrete pools, worlds, environments and event traces on which the theorems are run.\<close>

text \<open>A pool of three descriptors with the cursor on the second.\<close>

definition ex_pool :: "proxy list" where
  "ex_pool = [\<lparr>type = Http, url = ''http://10.0.0.1:8080''\<rparr>,
              \<lparr>type = Socks5, url = ''socks5://10.0.0.2:1080''\<rparr>,
              \<lparr>type = Socks4, url = ''socks4://10.0.0.3:1080''\<rparr>]"

definition ex_world :: world where
  "ex_world = \<lparr>proxy_enabled = True, proxy_type = Http, proxy_url = [],
               proxy_currentIndex = 1, proxyList = ex_pool, trace = []\<rparr>"

text \<open>
  An environment in which both agent constructors succeed, every liveness check is
  answered 502, the profile request succeeds, the locate service has no server, and the
  report is accepted. The tokens \<open>h.89.s\<close> and \<open>h.91.s\<close> decode to the expiry times
  1700000089 and 1700000091, in seconds.
\<close>

definition ex_env :: env where
  "ex_env = \<lparr>https_agent_throws = (\<lambda>u. False), socks_agent_throws = (\<lambda>u. False),
      fetch_testUrl = (\<lambda>h a. Response False 502 None),
      fetch_profile = (\<lambda>h a. Response True 200 (Some ())),
      fetch_locate = (\<lambda>h a. Response True 200 (Some \<lparr>results = []\<rparr>)),
      post_points = (\<lambda>h a p. Response True 200 (Some \<lparr>success = True, message = None\<rparr>)),
      websocket_throws = (\<lambda>u. False),
      download_created = 0, download_events = [],
      upload_created = 0, upload_events = [],
      atob_JSON_parse = (\<lambda>t. if t = ''h.89.s'' then Some \<lparr>exp_claim = Some (1700000089)\<rparr>
                               else if t = ''h.91.s'' then Some \<lparr>exp_claim = Some (1700000091)\<rparr>
                               else None)\<rparr>"

text \<open>A world without proxying.\<close>

definition ex_direct :: world where
  "ex_direct = \<lparr>proxy_enabled = False, proxy_type = Http, proxy_url = [],
               proxy_currentIndex = 0, proxyList = [], trace = []\<rparr>"

text \<open>Twelve million bytes of download, all handled less than ten seconds after time 0.\<close>

definition ex_frames :: "ws_event list" where
  "ex_frames = [OnBinary 4000000 2500, OnText (Measurement None), OnBinary 4000000 6000,
                OnBinary 4000000 9999]"

text \<open>
  An environment whose \<open>HttpsProxyAgent\<close> constructor throws on the url \<open>http://[\<close>, a
  pool loaded from the two lines \<open>[\<close> and \<open>10.0.0.1:8080\<close>, and a pool loaded from the
  single line \<open>ftp://10.0.0.9:21\<close>.
\<close>

definition ex_bad_env :: env where
  "ex_bad_env = ex_env\<lparr>https_agent_throws := (\<lambda>u. u = ''http://['')\<rparr>"

definition ex_bad_world :: world where
  "ex_bad_world = ex_world\<lparr>proxyList := [proxyOfLine ''['', proxyOfLine ''10.0.0.1:8080''],
                           proxy_currentIndex := 0\<rparr>"


text \<open>
  An upload phase: 305 buffers are queued at the start, a server message reporting
  7,500,000 bytes in 5,000,000 microseconds (12 Mbit/s) arrives, and the run of
  \<open>sendData\<close> at 10000 ms makes the cutoff.
\<close>

definition ex_upload :: "ws_event list" where
  "ex_upload = [OnOpen 0, OnSendData True 0 305,
                OnText (Measurement (Some \<lparr>BytesReceived = 7500000, ElapsedTime = 5000000\<rparr>)),
                OnSendData True 10000 0, OnClose]"

text \<open>The same phase with a second server message, of 9 Mbit/s, and no cutoff before an error.\<close>

definition ex_upload_error :: "ws_event list" where
  "ex_upload_error = [OnOpen 0, OnSendData True 0 305,
                OnText (Measurement (Some \<lparr>BytesReceived = 7500000, ElapsedTime = 5000000\<rparr>)),
                OnText (Measurement (Some \<lparr>BytesReceived = 9000000, ElapsedTime = 8000000\<rparr>)),
                OnError]"

text \<open>
  A server with both endpoints, and an environment in which discovery succeeds, the
  download connection fails right after opening and the upload connection fails after
  one server message.
\<close>

definition ex_server :: server where
  "ex_server = \<lparr>machine = ''mlab1-lga0t'',
                 urls = Some [''wss:///ndt/v7/download'' \<mapsto> ''wss://mlab1/ndt/v7/download'',
                              ''wss:///ndt/v7/upload'' \<mapsto> ''wss://mlab1/ndt/v7/upload'']\<rparr>"

definition ex_env_errors :: env where
  "ex_env_errors = ex_env\<lparr>
      fetch_locate := (\<lambda>h a. Response True 200 (Some \<lparr>results = [ex_server]\<rparr>)),
      download_events := [OnOpen 0, OnBinary 1000000 800, OnError],
      upload_events := ex_upload_error\<rparr>"

text \<open>The same server with a download of 10 Mbit/s and the upload phase \<open>ex_upload\<close>.\<close>

definition ex_env_ok :: env where
  "ex_env_ok = ex_env\<lparr>
      fetch_locate := (\<lambda>h a. Response True 200 (Some \<lparr>results = [ex_server]\<rparr>)),
      download_events := OnOpen 0 # ex_frames @ [OnBinary 500000 10000, OnClose],
      upload_events := ex_upload\<rparr>"

text \<open>An environment in which the locate service answers 503.\<close>

definition ex_env_503 :: env where
  "ex_env_503 = ex_env\<lparr>fetch_locate := (\<lambda>h a. Response False 503 None)\<rparr>"

section \<open>Round-robin selection\<close>

lemma mset_rotate_eq: "mset (rotate n xs) = mset xs"
proof -
  have "mset (drop (n mod length xs) xs) + mset (take (n mod length xs) xs) = mset (take (n mod length xs) xs @ drop (n mod length xs) xs)"
    by (simp only: mset_append add.commute)
  then show ?thesis by (simp add: rotate_drop_take)
qed

lemma getNextProxy_times_eq:
  assumes "proxyList w \<noteq> []" "proxy_currentIndex w < length (proxyList w)"
  shows "getNextProxy_times k w =
           (map (\<lambda>i. Some (proxyList w ! ((proxy_currentIndex w + i) mod length (proxyList w)))) [0..<k],
            w\<lparr>proxy_currentIndex := (proxy_currentIndex w + k) mod length (proxyList w)\<rparr>)"
  using assms
proof (induction k arbitrary: w)
  case 0
  then show ?case by simp
next
  case (Suc k)
  let ?n = "length (proxyList w)"
  let ?w1 = "w\<lparr>proxy_currentIndex := (proxy_currentIndex w + 1) mod ?n\<rparr>"
  have step: "getNextProxy w = (Some (proxyList w ! proxy_currentIndex w), ?w1)"
    using Suc.prems by (simp add: getNextProxy_def)
  have n0: "0 < ?n" using Suc.prems by simp
  have ih: "getNextProxy_times k ?w1 =
      (map (\<lambda>i. Some (proxyList w ! (((proxy_currentIndex w + 1) mod ?n + i) mod ?n))) [0..<k],
       ?w1\<lparr>proxy_currentIndex := ((proxy_currentIndex w + 1) mod ?n + k) mod ?n\<rparr>)"
    using Suc.IH [of ?w1] Suc.prems n0 by simp
  have m: "map (\<lambda>i. Some (proxyList w ! ((proxy_currentIndex w + i) mod ?n))) [0..<Suc k] =
        Some (proxyList w ! proxy_currentIndex w) #
        map (\<lambda>i. Some (proxyList w ! ((proxy_currentIndex w + Suc i) mod ?n))) [0..<k]"
    using Suc.prems by (simp add: upt_conv_Cons map_Suc_upt [symmetric] del: upt_Suc)
  have "getNextProxy_times (Suc k) w =
      (Some (proxyList w ! proxy_currentIndex w) #
        map (\<lambda>i. Some (proxyList w ! ((proxy_currentIndex w + Suc i) mod ?n))) [0..<k],
       w\<lparr>proxy_currentIndex := (proxy_currentIndex w + Suc k) mod ?n\<rparr>)"
    using ih by (simp add: step mod_add_left_eq)
  then show ?case unfolding m .
qed

text \<open>
  C3. On a non-empty pool of \<open>N\<close> descriptors with the cursor in range, \<open>N\<close>
  consecutive calls of \<open>getNextProxy\<close> return the pool read cyclically from the cursor,
  hence every entry exactly once, and leave the cursor where it started, so that call
  \<open>N + 1\<close> returns what the first call returned. Every single call returns the entry
  under the cursor and moves the cursor to \<open>(cursor + 1) mod N\<close>, which is below \<open>N\<close>;
  no liveness information is an input of the function.
\<close>

theorem getNextProxy_round_robin:
  assumes "proxyList w \<noteq> []" and "proxy_currentIndex w < length (proxyList w)"
  shows "fst (getNextProxy_times (length (proxyList w)) w) =
           map Some (rotate (proxy_currentIndex w) (proxyList w))
       \<and> mset (fst (getNextProxy_times (length (proxyList w)) w)) = mset (map Some (proxyList w))
       \<and> fst (getNextProxy (snd (getNextProxy_times (length (proxyList w)) w))) = fst (getNextProxy w)
       \<and> fst (getNextProxy w) = Some (proxyList w ! proxy_currentIndex w)
       \<and> proxy_currentIndex (snd (getNextProxy w)) = (proxy_currentIndex w + 1) mod length (proxyList w)
       \<and> proxy_currentIndex (snd (getNextProxy w)) < length (proxyList w)
       \<and> proxyList (snd (getNextProxy w)) = proxyList w"
proof -
  let ?n = "length (proxyList w)"
  let ?c = "proxy_currentIndex w"
  have n0: "0 < ?n" using assms by simp
  have r: "map (\<lambda>i. Some (proxyList w ! ((?c + i) mod ?n))) [0..<?n] = map Some (rotate ?c (proxyList w))"
    by (rule nth_equalityI) (simp_all add: nth_rotate)
  have 1: "fst (getNextProxy_times ?n w) = map Some (rotate ?c (proxyList w))"
    using getNextProxy_times_eq [OF assms, of ?n] r by simp
  have 2: "mset (fst (getNextProxy_times ?n w)) = mset (map Some (proxyList w))"
    unfolding 1 by (simp add: mset_rotate_eq)
  have "snd (getNextProxy_times ?n w) = w"
    using getNextProxy_times_eq [OF assms, of ?n] assms by simp
  then have 3: "fst (getNextProxy (snd (getNextProxy_times ?n w))) = fst (getNextProxy w)"
    by simp
  have 4: "fst (getNextProxy w) = Some (proxyList w ! ?c)"
    using assms by (simp add: getNextProxy_def)
  have 5: "proxy_currentIndex (snd (getNextProxy w)) = (?c + 1) mod ?n"
    using assms by (simp add: getNextProxy_def)
  have 6: "proxy_currentIndex (snd (getNextProxy w)) < ?n"
    using assms n0 by (simp add: getNextProxy_def)
  have 7: "proxyList (snd (getNextProxy w)) = proxyList w"
    by (simp add: getNextProxy_def Let_def)
  from 1 2 3 4 5 6 7 show ?thesis by blast
qed

theorem getNextProxy_round_robin_witness:
  "proxyList ex_world \<noteq> [] \<and> proxy_currentIndex ex_world < length (proxyList ex_world)
   \<and> fst (getNextProxy_times (length (proxyList ex_world)) ex_world) =
       [Some \<lparr>type = Socks5, url = ''socks5://10.0.0.2:1080''\<rparr>,
        Some \<lparr>type = Socks4, url = ''socks4://10.0.0.3:1080''\<rparr>,
        Some \<lparr>type = Http, url = ''http://10.0.0.1:8080''\<rparr>]
   \<and> fst (getNextProxy (snd (getNextProxy_times (length (proxyList ex_world)) ex_world))) =
       Some \<lparr>type = Socks5, url = ''socks5://10.0.0.2:1080''\<rparr>
   \<and> proxy_currentIndex (snd (getNextProxy ex_world)) = 2"
proof -
  have h1: "proxyList ex_world \<noteq> []" by (simp add: ex_world_def ex_pool_def)
  have h2: "proxy_currentIndex ex_world < length (proxyList ex_world)"
    by (simp add: ex_world_def ex_pool_def)
  note T = getNextProxy_round_robin [OF h1 h2]
  have r: "rotate (proxy_currentIndex ex_world) (proxyList ex_world) =
       [\<lparr>type = Socks5, url = ''socks5://10.0.0.2:1080''\<rparr>,
        \<lparr>type = Socks4, url = ''socks4://10.0.0.3:1080''\<rparr>,
        \<lparr>type = Http, url = ''http://10.0.0.1:8080''\<rparr>]"
    by (simp add: ex_world_def ex_pool_def)
  have a: "fst (getNextProxy ex_world) = Some \<lparr>type = Socks5, url = ''socks5://10.0.0.2:1080''\<rparr>"
    by (simp add: getNextProxy_def ex_world_def ex_pool_def)
  have c: "(proxy_currentIndex ex_world + 1) mod length (proxyList ex_world) = 2"
    by (simp add: ex_world_def ex_pool_def)
  from T have 1: "fst (getNextProxy_times (length (proxyList ex_world)) ex_world) =
           map Some (rotate (proxy_currentIndex ex_world) (proxyList ex_world))"
    and 3: "fst (getNextProxy (snd (getNextProxy_times (length (proxyList ex_world)) ex_world))) = fst (getNextProxy ex_world)"
    and 5: "proxy_currentIndex (snd (getNextProxy ex_world)) = (proxy_currentIndex ex_world + 1) mod length (proxyList ex_world)"
    by blast+
  show ?thesis
    unfolding 1 3 5 r a c using h1 h2 by simp
qed

section \<open>Generated locations\<close>

lemma Math_round_bounds:
  assumes "of_int a \<le> x" and "x \<le> of_int b"
  shows "of_int a \<le> Math_round x \<and> Math_round x \<le> of_int b"
proof -
  have "a \<le> \<lfloor>x + 1 / 2\<rfloor>" using assms(1) by (simp add: le_floor_iff)
  moreover have "\<lfloor>x + 1 / 2\<rfloor> \<le> b" using assms(2) by (simp add: floor_le_iff)
  ultimately show ?thesis unfolding Math_round_def by simp
qed

text \<open>
  C9. For the two random numbers in \<open>[0, 1)\<close>, the generated latitude lies in
  \<open>[18.0, 53.55]\<close>, the longitude in \<open>[73.66, 135.05]\<close>, and both are whole multiples
  of \<open>0.000001\<close>, that is, rounded to six decimals.
\<close>

theorem generateRandomLocation_bounds:
  assumes "0 \<le> r1" and "r1 < 1" and "0 \<le> r2" and "r2 < 1"
  shows "18 \<le> latitude (generateRandomLocation r1 r2)
       \<and> latitude (generateRandomLocation r1 r2) \<le> 5355 / 100
       \<and> 7366 / 100 \<le> longitude (generateRandomLocation r1 r2)
       \<and> longitude (generateRandomLocation r1 r2) \<le> 13505 / 100
       \<and> (\<exists>k::int. latitude (generateRandomLocation r1 r2) = of_int k / 1000000)
       \<and> (\<exists>k::int. longitude (generateRandomLocation r1 r2) = of_int k / 1000000)"
proof -
  let ?lat = "18 + r1 * (5355 / 100 - 18)"
  let ?lng = "7366 / 100 + r2 * (13505 / 100 - 7366 / 100)"
  have a: "of_int 18000000 \<le> ?lat * 1000000" "?lat * 1000000 \<le> of_int 53550000"
    using assms(1,2) by simp_all
  have b: "of_int 73660000 \<le> ?lng * 1000000" "?lng * 1000000 \<le> of_int 135050000"
    using assms(3,4) by simp_all
  from Math_round_bounds [OF a] Math_round_bounds [OF b]
  have "18 \<le> Math_round (?lat * 1000000) / 1000000"
       "Math_round (?lat * 1000000) / 1000000 \<le> 5355 / 100"
       "7366 / 100 \<le> Math_round (?lng * 1000000) / 1000000"
       "Math_round (?lng * 1000000) / 1000000 \<le> 13505 / 100"
    by simp_all
  moreover have "\<exists>k::int. Math_round (?lat * 1000000) / 1000000 = of_int k / 1000000"
    unfolding Math_round_def by blast
  moreover have "\<exists>k::int. Math_round (?lng * 1000000) / 1000000 = of_int k / 1000000"
    unfolding Math_round_def by blast
  ultimately show ?thesis
    by (simp add: generateRandomLocation_def Let_def)
qed

theorem generateRandomLocation_bounds_witness:
  "(0::real) \<le> 1 / 2 \<and> (1 / 2 :: real) < 1 \<and> (0::real) \<le> 999999 / 1000000 \<and> (999999 / 1000000 :: real) < 1
   \<and> generateRandomLocation (1 / 2) (999999 / 1000000) = \<lparr>latitude = 35775 / 1000, longitude = 135049939 / 1000000\<rparr>
   \<and> 18 \<le> latitude (generateRandomLocation (1 / 2) (999999 / 1000000))
   \<and> longitude (generateRandomLocation (1 / 2) (999999 / 1000000)) \<le> 13505 / 100"
  using generateRandomLocation_bounds [of "1 / 2" "999999 / 1000000"]
  by (simp add: generateRandomLocation_def Let_def Math_round_def)

section \<open>Session gate: the expiry margin\<close>

lemma getProxyAgent_loop_error:
  "fst (getProxyAgent_loop E retries initialIndex attempts w) = Inl e \<Longrightarrow> e = AllProxiesFailed"
proof (induction E retries initialIndex attempts w rule: getProxyAgent_loop.induct)
  case (1 E retries initialIndex attempts w)
  show ?case
  proof (cases "attempts < retries * length (proxyList w)")
    case False
    with "1.prems" show ?thesis by (simp add: getProxyAgent_loop.simps [of E retries initialIndex attempts w])
  next
    case True
    obtain a w1 where c: "createProxyAgent_single E w = (a, w1)" by (cases "createProxyAgent_single E w")
    show ?thesis
    proof (cases a)
      case None
      with "1.prems" True c show ?thesis
        by (simp add: getProxyAgent_loop.simps [of E retries initialIndex attempts w])
    next
      case (Some ag)
      show ?thesis
      proof (cases "fst (isProxyAlive_single E ag w1)")
        case alive: True
        with "1.prems" True c Some show ?thesis
          by (simp add: getProxyAgent_loop.simps [of E retries initialIndex attempts w])
      next
        case dead: False
        from "1.IH" [OF True c [symmetric] Some dead] "1.prems" True c Some dead
        show ?thesis
          by (simp add: getProxyAgent_loop.simps [of E retries initialIndex attempts w])
      qed
    qed
  qed
qed

lemma getProxyAgent_single_error:
  "fst (getProxyAgent_single E retries w) = Inl e \<Longrightarrow> e = AllProxiesFailed"
  using getProxyAgent_loop_error [of E retries "proxy_currentIndex w" 0 w]
  by (simp add: getProxyAgent_single_def split: if_splits)

lemma validateToken_try_expired:
  assumes "atob_JSON_parse E token = Some td" and "token_expired td now"
  shows "validateToken_try acquire E token now w = (Inl TokenExpired, w)"
  using assms by (simp add: validateToken_try_def)

lemma validateToken_try_not_expired:
  assumes "atob_JSON_parse E token = Some td" and "\<not> token_expired td now"
    and "\<And>e. fst (acquire w) = Inl e \<Longrightarrow> e \<noteq> TokenExpired"
  shows "fst (validateToken_try acquire E token now w) \<noteq> Inl TokenExpired"
proof (cases "acquire w")
  case (Pair r w1)
  show ?thesis
  proof (cases r)
    case (Inl e)
    with Pair assms show ?thesis by (auto simp: validateToken_try_def)
  next
    case (Inr ag)
    with Pair assms show ?thesis
      by (auto simp: validateToken_try_def split: response.splits)
  qed
qed

lemma validateToken_direct_ok:
  assumes "token \<noteq> []" and "atob_JSON_parse E token = Some td" and "\<not> token_expired td now"
    and "\<not> proxy_enabled w" and "fetch_profile E (trace w) None = Response True status body"
  shows "validateToken_multi E token now w = (Inr True, w\<lparr>trace := trace w @ [GetProfile None]\<rparr>)"
    and "validateToken_single E token now w = (Inr (), w\<lparr>trace := trace w @ [GetProfile None]\<rparr>)"
  using assms
  by (simp_all add: validateToken_multi_def validateToken_single_def validateToken_try_def
        getProxyAgent_multi_def getProxyAgent_single_def)

text \<open>
  C5. On a token whose decoded \<open>exp\<close> satisfies \<open>(exp - 90) * 1000 < Date.now()\<close> the
  \<open>try\<close> of \<open>validateToken\<close> throws "Token expired" with the world unchanged: no proxy
  check and no request has been made. The multi-account client returns \<open>false\<close> for
  it and the single-account client rethrows it. With \<open>exp\<close> 89 seconds after now the token is expired; with \<open>exp\<close> 91
  seconds after now the check passes, \<open>validateToken\<close> does not fail with expired, and
  on a direct connection with a successful profile response the token is valid.
\<close>

theorem validateToken_expiry_margin:
  assumes "token \<noteq> []" and "atob_JSON_parse E token = Some td" and "exp_claim td = Some e"
  shows "((e - 90) * 1000 < of_int now \<longrightarrow>
            validateToken_try acquire E token now w = (Inl TokenExpired, w)
          \<and> validateToken_multi E token now w = (Inr False, w)
          \<and> validateToken_single E token now w = (Inl TokenExpired, w))
       \<and> (e = of_int now / 1000 + 89 \<longrightarrow>
            validateToken_multi E token now w = (Inr False, w)
          \<and> validateToken_single E token now w = (Inl TokenExpired, w))
       \<and> (e = of_int now / 1000 + 91 \<longrightarrow>
            \<not> token_expired td now
          \<and> fst (validateToken_single E token now w) \<noteq> Inl TokenExpired
          \<and> (\<not> proxy_enabled w \<and> fetch_profile E (trace w) None = Response True status body \<longrightarrow>
               validateToken_multi E token now w = (Inr True, w\<lparr>trace := trace w @ [GetProfile None]\<rparr>)
             \<and> validateToken_single E token now w = (Inr (), w\<lparr>trace := trace w @ [GetProfile None]\<rparr>)))"
proof (intro conjI impI)
  assume "(e - 90) * 1000 < of_int now"
  then have x: "token_expired td now" using assms(3) by (simp add: token_expired_def)
  show "validateToken_try acquire E token now w = (Inl TokenExpired, w)"
    by (rule validateToken_try_expired [OF assms(2) x])
  show "validateToken_multi E token now w = (Inr False, w)"
    using assms(1) validateToken_try_expired [OF assms(2) x] by (simp add: validateToken_multi_def)
  show "validateToken_single E token now w = (Inl TokenExpired, w)"
    using assms(1) validateToken_try_expired [OF assms(2) x] by (simp add: validateToken_single_def)
next
  assume "e = of_int now / 1000 + 89"
  then have x: "token_expired td now" using assms(3) by (simp add: token_expired_def)
  show "validateToken_multi E token now w = (Inr False, w)"
    using assms(1) validateToken_try_expired [OF assms(2) x] by (simp add: validateToken_multi_def)
  show "validateToken_single E token now w = (Inl TokenExpired, w)"
    using assms(1) validateToken_try_expired [OF assms(2) x] by (simp add: validateToken_single_def)
next
  assume "e = of_int now / 1000 + 91"
  then show x: "\<not> token_expired td now" using assms(3) by (simp add: token_expired_def)
  have "\<And>e. fst (getProxyAgent_single E maxRetries w) = Inl e \<Longrightarrow> e \<noteq> TokenExpired"
    using getProxyAgent_single_error by blast
  from validateToken_try_not_expired [OF assms(2) x this]
  show "fst (validateToken_single E token now w) \<noteq> Inl TokenExpired"
    using assms(1) by (simp add: validateToken_single_def)
  {
    assume d: "\<not> proxy_enabled w \<and> fetch_profile E (trace w) None = Response True status body"
    show "validateToken_multi E token now w = (Inr True, w\<lparr>trace := trace w @ [GetProfile None]\<rparr>)"
      using validateToken_direct_ok(1) [OF assms(1,2) x] d by blast
    show "validateToken_single E token now w = (Inr (), w\<lparr>trace := trace w @ [GetProfile None]\<rparr>)"
      using validateToken_direct_ok(2) [OF assms(1,2) x] d by blast
  }
qed

theorem validateToken_expiry_margin_witness:
  "validateToken_multi ex_env ''h.89.s'' 1700000000000 ex_direct = (Inr False, ex_direct)
   \<and> validateToken_single ex_env ''h.89.s'' 1700000000000 ex_direct = (Inl TokenExpired, ex_direct)
   \<and> validateToken_multi ex_env ''h.91.s'' 1700000000000 ex_direct =
       (Inr True, ex_direct\<lparr>trace := [GetProfile None]\<rparr>)
   \<and> validateToken_single ex_env ''h.91.s'' 1700000000000 ex_direct =
       (Inr (), ex_direct\<lparr>trace := [GetProfile None]\<rparr>)"
proof -
  have p89: "atob_JSON_parse ex_env ''h.89.s'' = Some \<lparr>exp_claim = Some 1700000089\<rparr>"
    and p91: "atob_JSON_parse ex_env ''h.91.s'' = Some \<lparr>exp_claim = Some 1700000091\<rparr>"
    by (simp_all add: ex_env_def)
  have n89: "''h.89.s'' \<noteq> []" and n91: "''h.91.s'' \<noteq> []" by simp_all
  have e89: "exp_claim \<lparr>exp_claim = Some 1700000089\<rparr> = Some 1700000089"
    and e91: "exp_claim \<lparr>exp_claim = Some 1700000091\<rparr> = Some 1700000091" by simp_all
  have d: "\<not> proxy_enabled ex_direct"
    "fetch_profile ex_env (trace ex_direct) None = Response True 200 (Some ())"
    "trace ex_direct = []"
    by (simp_all add: ex_direct_def ex_env_def)
  from validateToken_expiry_margin [OF n89 p89 e89, where now = 1700000000000 and w = ex_direct]
  have a: "validateToken_multi ex_env ''h.89.s'' 1700000000000 ex_direct = (Inr False, ex_direct)
     \<and> validateToken_single ex_env ''h.89.s'' 1700000000000 ex_direct = (Inl TokenExpired, ex_direct)"
    by simp
  from validateToken_expiry_margin [OF n91 p91 e91, where now = 1700000000000 and w = ex_direct
      and status = 200 and body = "Some ()"] d
  have b: "validateToken_multi ex_env ''h.91.s'' 1700000000000 ex_direct =
       (Inr True, ex_direct\<lparr>trace := [GetProfile None]\<rparr>)
     \<and> validateToken_single ex_env ''h.91.s'' 1700000000000 ex_direct =
       (Inr (), ex_direct\<lparr>trace := [GetProfile None]\<rparr>)"
    by simp
  from a b show ?thesis by blast
qed

section \<open>Download phase\<close>

lemma duration_of_ge_10: "(duration_of st now \<ge> 10) = (now - startTime st \<ge> 10000)"
  by (simp add: duration_of_def del: of_int_diff)

lemma download_run_no_cutoff:
  assumes "\<forall>e\<in>set pre. no_cutoff (startTime st) e" and "OnText Unparsable \<notin> set pre"
  shows "download_run st (pre @ rest) =
           download_run (st\<lparr>totalBytes := totalBytes st + binary_bytes pre\<rparr>) rest"
  using assms
proof (induction pre arbitrary: st)
  case Nil
  then show ?case by simp
next
  case (Cons e pre)
  show ?case
  proof (cases e)
    case (OnBinary len now)
    let ?st1 = "st\<lparr>totalBytes := totalBytes st + len\<rparr>"
    from Cons.prems OnBinary have lt: "\<not> duration_of ?st1 now \<ge> 10"
      by (simp add: duration_of_ge_10)
    have "download_run st ((e # pre) @ rest) = download_run ?st1 (pre @ rest)"
      using OnBinary lt by (simp add: Let_def)
    also have "\<dots> = download_run (?st1\<lparr>totalBytes := totalBytes ?st1 + binary_bytes pre\<rparr>) rest"
      using Cons.prems by (intro Cons.IH) simp_all
    finally show ?thesis using OnBinary by (simp add: add.assoc)
  next
    case (OnText f)
    with Cons.prems have "f \<noteq> Unparsable" by auto
    then obtain m where "f = Measurement m" by (cases f) auto
    with OnText Cons show ?thesis by simp
  next
    case (OnSendData op now n)
    with Cons show ?thesis by simp
  qed (use Cons.prems in simp_all)
qed

lemma download_run_no_cutoff_weak:
  assumes "\<forall>e\<in>set pre. no_cutoff (startTime st) e"
  shows "download_run st (pre @ rest) = Uncaught
       \<or> download_run st (pre @ rest) =
           download_run (st\<lparr>totalBytes := totalBytes st + binary_bytes pre\<rparr>) rest"
proof (cases "OnText Unparsable \<in> set pre")
  case False
  with download_run_no_cutoff [OF assms] show ?thesis by simp
next
  case True
  then obtain xs ys where s: "pre = xs @ OnText Unparsable # ys" "OnText Unparsable \<notin> set xs"
    by (meson split_list_first)
  from assms s have "\<forall>e\<in>set xs. no_cutoff (startTime st) e" by simp
  from download_run_no_cutoff [OF this s(2), of "OnText Unparsable # ys @ rest"]
  have "download_run st (pre @ rest) = Uncaught" using s(1) by simp
  then show ?thesis by simp
qed


lemma download_on_cutoff:
  assumes "now - startTime st \<ge> 10000"
  shows "download_on (OnBinary len now) st =
           Some (st\<lparr>totalBytes := totalBytes st + len,
                    speed := Num (of_nat (totalBytes st + len) * 8 /
                                  (of_int (now - startTime st) / 1000 * 1000000)),
                    closeCalls := closeCalls st + 1\<rparr>)"
  using assms by (simp add: Let_def duration_of_ge_10 client_speed_def) (simp add: duration_of_def)

text \<open>
  C2. In a download phase opened at \<open>t0\<close>, let the messages before the first binary
  message with at least ten seconds elapsed be given (binary messages under ten seconds,
  and text messages that parse). At that binary message, handled at \<open>now\<close>, the speed
  becomes \<open>totalBytes * 8 / (elapsed * 1000000)\<close> with \<open>totalBytes\<close> all bytes received
  since the open and \<open>elapsed = (now - t0) / 1000\<close>, and \<open>ws.close()\<close> is called once; a
  \<open>close\<close> event then settles the phase with that speed. With 12,500,000 bytes and
  \<open>now = t0 + 10000\<close> the speed is exactly 10. The message callback does the same in
  every state whose start time lies at least 10000 ms before \<open>now\<close>.
\<close>

theorem download_cutoff_speed:
  assumes "\<forall>e\<in>set pre. no_cutoff t0 e" and "OnText Unparsable \<notin> set pre"
    and "now - t0 \<ge> 10000"
  shows "download_run (meas_init created) (OnOpen t0 # pre @ OnBinary len now # OnClose # rest) =
           Resolved \<lparr>startTime = t0, totalBytes = binary_bytes pre + len,
                     speed = Num (of_nat (binary_bytes pre + len) * 8 /
                                  (of_int (now - t0) / 1000 * 1000000)),
                     sending = False, closeCalls = 1\<rparr>
       \<and> (binary_bytes pre + len = 12500000 \<and> now = t0 + 10000 \<longrightarrow>
            map_outcome speed
              (download_run (meas_init created) (OnOpen t0 # pre @ OnBinary len now # OnClose # rest)) =
            Resolved (Num 10))
       \<and> (\<forall>st. now - startTime st \<ge> 10000 \<longrightarrow>
            download_on (OnBinary len now) st =
              Some (st\<lparr>totalBytes := totalBytes st + len,
                       speed := Num (of_nat (totalBytes st + len) * 8 /
                                     (of_int (now - startTime st) / 1000 * 1000000)),
                       closeCalls := closeCalls st + 1\<rparr>))"
proof -
  let ?st0 = "(meas_init created)\<lparr>startTime := t0, totalBytes := 0\<rparr>"
  let ?st1 = "?st0\<lparr>totalBytes := totalBytes ?st0 + binary_bytes pre\<rparr>"
  let ?run = "download_run (meas_init created) (OnOpen t0 # pre @ OnBinary len now # OnClose # rest)"
  have p: "\<forall>e\<in>set pre. no_cutoff (startTime ?st0) e" using assms(1) by simp
  have "?run = download_run ?st0 (pre @ OnBinary len now # OnClose # rest)" by simp
  also have "\<dots> = download_run ?st1 (OnBinary len now # OnClose # rest)"
    by (rule download_run_no_cutoff [OF p assms(2)])
  also have "\<dots> = Resolved \<lparr>startTime = t0, totalBytes = binary_bytes pre + len,
                     speed = Num (of_nat (binary_bytes pre + len) * 8 /
                                  (of_int (now - t0) / 1000 * 1000000)),
                     sending = False, closeCalls = 1\<rparr>"
    using download_on_cutoff [where st = ?st1 and now = now and len = len] assms(3) by (simp add: meas_init_def)
  finally have 1: "?run = Resolved \<lparr>startTime = t0, totalBytes = binary_bytes pre + len,
                     speed = Num (of_nat (binary_bytes pre + len) * 8 /
                                  (of_int (now - t0) / 1000 * 1000000)),
                     sending = False, closeCalls = 1\<rparr>" .
  have 2: "binary_bytes pre + len = 12500000 \<and> now = t0 + 10000 \<longrightarrow>
            map_outcome speed ?run = Resolved (Num 10)"
    unfolding 1 by simp
  have 3: "\<forall>st. now - startTime st \<ge> 10000 \<longrightarrow>
            download_on (OnBinary len now) st =
              Some (st\<lparr>totalBytes := totalBytes st + len,
                       speed := Num (of_nat (totalBytes st + len) * 8 /
                                     (of_int (now - startTime st) / 1000 * 1000000)),
                       closeCalls := closeCalls st + 1\<rparr>)"
    using download_on_cutoff by blast
  from 1 2 3 show ?thesis by blast
qed

theorem download_cutoff_speed_witness:
  "list_all (no_cutoff 0) ex_frames \<and> OnText Unparsable \<notin> set ex_frames
   \<and> binary_bytes ex_frames + 500000 = 12500000
   \<and> download_run (meas_init 0) (OnOpen 0 # ex_frames @ [OnBinary 500000 10000, OnClose]) =
       Resolved \<lparr>startTime = 0, totalBytes = 12500000, speed = Num 10, sending = False, closeCalls = 1\<rparr>"
proof -
  have h1: "\<forall>e\<in>set ex_frames. no_cutoff 0 e" by (simp add: ex_frames_def)
  have h2: "OnText Unparsable \<notin> set ex_frames" by (simp add: ex_frames_def)
  have l: "list_all (no_cutoff 0) ex_frames" by (simp add: ex_frames_def)
  have h3: "(10000::int) - 0 \<ge> 10000" by simp
  have b: "binary_bytes ex_frames + 500000 = 12500000" by (simp add: ex_frames_def)
  from download_cutoff_speed [OF h1 h2 h3, of 0 500000 "[]"]
  have "download_run (meas_init 0) (OnOpen 0 # ex_frames @ [OnBinary 500000 10000, OnClose]) =
       Resolved \<lparr>startTime = 0, totalBytes = 12500000, speed = Num 10, sending = False, closeCalls = 1\<rparr>"
    unfolding b by simp
  with l h2 b show ?thesis by simp
qed

text \<open>
  C10. When the \<open>close\<close> or \<open>error\<close> event of a download phase comes before any binary
  message with at least ten seconds elapsed, the phase does not end with a positive
  speed: its speed is exactly 0 whatever the number of bytes received (unless a text
  message did not parse, and the uncaught exception ended the process). The same holds
  when the connection closes or fails before it opens.
\<close>

theorem download_no_cutoff_zero:
  assumes "\<forall>e\<in>set pre. no_cutoff t0 e" and "fin = OnClose \<or> fin = OnError"
  shows "(download_run (meas_init created) (OnOpen t0 # pre @ fin # rest) = Uncaught
          \<or> (\<exists>st. download_run (meas_init created) (OnOpen t0 # pre @ fin # rest) = Resolved st
                 \<and> speed st = Num 0))
       \<and> (OnText Unparsable \<notin> set pre \<longrightarrow>
            download_run (meas_init created) (OnOpen t0 # pre @ fin # rest) =
              Resolved \<lparr>startTime = t0, totalBytes = binary_bytes pre, speed = Num 0,
                        sending = False, closeCalls = 0\<rparr>)
       \<and> download_run (meas_init created) (fin # rest) = Resolved (meas_init created)"
proof -
  let ?st0 = "(meas_init created)\<lparr>startTime := t0, totalBytes := 0\<rparr>"
  let ?st1 = "?st0\<lparr>totalBytes := totalBytes ?st0 + binary_bytes pre\<rparr>"
  let ?run = "download_run (meas_init created) (OnOpen t0 # pre @ fin # rest)"
  have p: "\<forall>e\<in>set pre. no_cutoff (startTime ?st0) e" using assms(1) by simp
  have r: "?run = download_run ?st0 (pre @ fin # rest)" by simp
  have f: "download_run ?st1 (fin # rest) =
      Resolved \<lparr>startTime = t0, totalBytes = binary_bytes pre, speed = Num 0,
                        sending = False, closeCalls = 0\<rparr>"
    using assms(2) by (auto simp: meas_init_def)
  have 1: "?run = Uncaught \<or> (\<exists>st. ?run = Resolved st \<and> speed st = Num 0)"
    using download_run_no_cutoff_weak [OF p, of "fin # rest"] unfolding r f by auto
  have 2: "OnText Unparsable \<notin> set pre \<longrightarrow> ?run =
      Resolved \<lparr>startTime = t0, totalBytes = binary_bytes pre, speed = Num 0,
                        sending = False, closeCalls = 0\<rparr>"
    using download_run_no_cutoff [OF p, of "fin # rest"] unfolding r f by simp
  have 3: "download_run (meas_init created) (fin # rest) = Resolved (meas_init created)"
    using assms(2) by auto
  from 1 2 3 show ?thesis by blast
qed

theorem download_no_cutoff_zero_witness:
  "list_all (no_cutoff 0) ex_frames \<and> OnText Unparsable \<notin> set ex_frames
   \<and> download_run (meas_init 0) (OnOpen 0 # ex_frames @ [OnError]) =
       Resolved \<lparr>startTime = 0, totalBytes = 12000000, speed = Num 0, sending = False, closeCalls = 0\<rparr>
   \<and> download_run (meas_init 0) [OnError] = Resolved (meas_init 0)"
proof -
  have h1: "\<forall>e\<in>set ex_frames. no_cutoff 0 e" by (simp add: ex_frames_def)
  have h2: "OnText Unparsable \<notin> set ex_frames" by (simp add: ex_frames_def)
  have l: "list_all (no_cutoff 0) ex_frames" by (simp add: ex_frames_def)
  have h3: "OnError = OnClose \<or> OnError = OnError" by simp
  have b: "binary_bytes ex_frames = 12000000" by (simp add: ex_frames_def)
  from download_no_cutoff_zero [OF h1 h3, of 0 "[]"] h2
  have "download_run (meas_init 0) (OnOpen 0 # ex_frames @ [OnError]) =
       Resolved \<lparr>startTime = 0, totalBytes = 12000000, speed = Num 0, sending = False, closeCalls = 0\<rparr>
     \<and> download_run (meas_init 0) [OnError] = Resolved (meas_init 0)"
    unfolding b by simp
  with l h2 show ?thesis by simp
qed

section \<open>Proxy acquisition: exhausting the pool\<close>

lemma createProxyAgent_single_built:
  assumes "proxyList w \<noteq> []" and "proxy_currentIndex w < length (proxyList w)"
    and "\<forall>p\<in>set (proxyList w). buildAgent E (type p) (url p) \<noteq> None"
  shows "\<exists>a w1. createProxyAgent_single E w = (Some a, w1) \<and> proxyList w1 = proxyList w
           \<and> proxy_currentIndex w1 = (proxy_currentIndex w + 1) mod length (proxyList w)
           \<and> trace w1 = trace w \<and> proxy_enabled w1 = proxy_enabled w"
proof -
  let ?p = "proxyList w ! proxy_currentIndex w"
  have "?p \<in> set (proxyList w)" using assms(2) by simp
  with assms(3) obtain a where a: "buildAgent E (type ?p) (url ?p) = Some a" by blast
  show ?thesis
    using assms(1,2) a by (simp add: createProxyAgent_single_def getNextProxy_def)
qed

lemma getProxyAgent_loop_all_fail:
  assumes "proxyList w \<noteq> []" and "proxy_currentIndex w < length (proxyList w)"
    and "\<forall>p\<in>set (proxyList w). buildAgent E (type p) (url p) \<noteq> None"
    and "\<forall>a w'. \<not> fst (isProxyAlive_single E a w')"
    and "attempts \<le> retries * length (proxyList w)"
  shows "fst (getProxyAgent_loop E retries initialIndex attempts w) = Inl AllProxiesFailed
       \<and> probes (snd (getProxyAgent_loop E retries initialIndex attempts w)) =
           probes w + (retries * length (proxyList w) - attempts)"
  using assms
proof (induction "retries * length (proxyList w) - attempts" arbitrary: attempts w)
  case 0
  then have "\<not> attempts < retries * length (proxyList w)" by simp
  then show ?case
    by (simp add: getProxyAgent_loop.simps [of E retries initialIndex attempts w])
next
  case (Suc k)
  let ?n = "length (proxyList w)"
  from Suc.hyps(2) have lt: "attempts < retries * ?n" by simp
  from createProxyAgent_single_built [OF Suc.prems(1,2,3)]
  obtain a w1 where c: "createProxyAgent_single E w = (Some a, w1)" and pl: "proxyList w1 = proxyList w"
    and ci: "proxy_currentIndex w1 = (proxy_currentIndex w + 1) mod ?n" and tr: "trace w1 = trace w"
    by blast
  let ?w2 = "snd (isProxyAlive_single E a w1)"
  let ?w3 = "if proxy_currentIndex w1 = initialIndex
             then ?w2\<lparr>trace := trace ?w2 @ [Sleep (1000 * (attempts div length (proxyList w1) + 1))]\<rparr>
             else ?w2"
  have dead: "\<not> fst (isProxyAlive_single E a w1)" using Suc.prems(4) by blast
  have w3: "proxyList ?w3 = proxyList w" "proxy_currentIndex ?w3 = (proxy_currentIndex w + 1) mod ?n"
    "probes ?w3 = Suc (probes w)"
    using pl ci tr by (simp_all add: isProxyAlive_single_def probes_def)
  have n0: "0 < ?n" using Suc.prems(1) by simp
  have step: "getProxyAgent_loop E retries initialIndex attempts w =
              getProxyAgent_loop E retries initialIndex (attempts + 1) ?w3"
    using lt c dead by (subst getProxyAgent_loop.simps) simp
  have k: "k = retries * length (proxyList ?w3) - (attempts + 1)"
    using Suc.hyps(2) w3(1) by simp
  have ih: "fst (getProxyAgent_loop E retries initialIndex (attempts + 1) ?w3) = Inl AllProxiesFailed
       \<and> probes (snd (getProxyAgent_loop E retries initialIndex (attempts + 1) ?w3)) =
           probes ?w3 + (retries * length (proxyList ?w3) - (attempts + 1))"
  proof (rule Suc.hyps(1) [OF k])
    show "proxyList ?w3 \<noteq> []" using w3(1) Suc.prems(1) by simp
    show "proxy_currentIndex ?w3 < length (proxyList ?w3)" using w3(1,2) n0 by simp
    show "\<forall>p\<in>set (proxyList ?w3). buildAgent E (type p) (url p) \<noteq> None"
      using w3(1) Suc.prems(3) by simp
    show "\<forall>a w'. \<not> fst (isProxyAlive_single E a w')" by (rule Suc.prems(4))
    show "attempts + 1 \<le> retries * length (proxyList ?w3)" using lt w3(1) by simp
  qed
  show ?case
    unfolding step using ih lt w3(1,3) by simp
qed

lemma createProxyAgent_single_frame:
  "proxyList (snd (createProxyAgent_single E w)) = proxyList w"
  "trace (snd (createProxyAgent_single E w)) = trace w"
  by (simp_all add: createProxyAgent_single_def getNextProxy_def Let_def split: option.splits)

lemma getProxyAgent_loop_probe_bound:
  "probes (snd (getProxyAgent_loop E retries initialIndex attempts w)) \<le>
     probes w + (retries * length (proxyList w) - attempts)"
proof (induction E retries initialIndex attempts w rule: getProxyAgent_loop.induct)
  case (1 E retries initialIndex attempts w)
  show ?case
  proof (cases "attempts < retries * length (proxyList w)")
    case False
    then show ?thesis by (simp add: getProxyAgent_loop.simps [of E retries initialIndex attempts w])
  next
    case True
    obtain a w1 where c: "createProxyAgent_single E w = (a, w1)"
      by (cases "createProxyAgent_single E w")
    from createProxyAgent_single_frame [of E w] c
    have f: "proxyList w1 = proxyList w" "trace w1 = trace w" by simp_all
    show ?thesis
    proof (cases a)
      case None
      with True c f show ?thesis
        by (simp add: getProxyAgent_loop.simps [of E retries initialIndex attempts w] probes_def)
    next
      case (Some ag)
      let ?w2 = "snd (isProxyAlive_single E ag w1)"
      have w2: "proxyList ?w2 = proxyList w" "probes ?w2 = Suc (probes w)"
        using f by (simp_all add: isProxyAlive_single_def probes_def)
      show ?thesis
      proof (cases "fst (isProxyAlive_single E ag w1)")
        case alive: True
        with True c Some w2 show ?thesis
          by (simp add: getProxyAgent_loop.simps [of E retries initialIndex attempts w])
      next
        case dead: False
        let ?w3 = "if proxy_currentIndex w1 = initialIndex
                   then ?w2\<lparr>trace := trace ?w2 @ [Sleep (1000 * (attempts div length (proxyList w1) + 1))]\<rparr>
                   else ?w2"
        have w3: "proxyList ?w3 = proxyList w" "probes ?w3 = Suc (probes w)"
          using w2 by (simp_all add: probes_def)
        from "1.IH" [OF True c [symmetric] Some dead]
        have "probes (snd (getProxyAgent_loop E retries initialIndex (attempts + 1) ?w3)) \<le>
                probes ?w3 + (retries * length (proxyList ?w3) - (attempts + 1))" .
        then have "probes (snd (getProxyAgent_loop E retries initialIndex (attempts + 1) ?w3)) \<le>
                probes w + (retries * length (proxyList w) - attempts)"
          unfolding w3 using True by simp
        moreover have "getProxyAgent_loop E retries initialIndex attempts w =
            getProxyAgent_loop E retries initialIndex (attempts + 1) ?w3"
          using True c Some dead by (subst getProxyAgent_loop.simps) simp
        ultimately show ?thesis by simp
      qed
    qed
  qed
qed

lemma getProxyAgent_single_probe_bound:
  "probes (snd (getProxyAgent_single E retries w)) \<le> probes w + retries * length (proxyList w)"
  using getProxyAgent_loop_probe_bound [of E retries "proxy_currentIndex w" 0 w]
  by (simp add: getProxyAgent_single_def)

text \<open>
  C4, as the code has it. \<open>getProxyAgent\<close> of the single-account client never makes more
  than \<open>retries * N\<close> liveness checks, \<open>N\<close> being the size of the pool. With proxying
  enabled, a non-empty pool (cursor in range) for each of whose descriptors a transport is
  built, and every liveness check failing, it makes exactly \<open>retries * N\<close> of them and
  then throws its all-proxies-failed error: it returns neither a handle nor \<open>undefined\<close>.
\<close>

theorem getProxyAgent_exhausted:
  "probes (snd (getProxyAgent_single E retries w)) \<le> probes w + retries * length (proxyList w)
   \<and> (proxy_enabled w \<and> proxyList w \<noteq> []
       \<and> proxy_currentIndex w < length (proxyList w)
       \<and> (\<forall>p\<in>set (proxyList w). buildAgent E (type p) (url p) \<noteq> None)
       \<and> (\<forall>a w'. \<not> fst (isProxyAlive_single E a w'))
      \<longrightarrow> fst (getProxyAgent_single E retries w) = Inl AllProxiesFailed
        \<and> probes (snd (getProxyAgent_single E retries w)) =
            probes w + retries * length (proxyList w))"
proof (intro conjI impI)
  show "probes (snd (getProxyAgent_single E retries w)) \<le> probes w + retries * length (proxyList w)"
    by (rule getProxyAgent_single_probe_bound)
next
  assume h: "proxy_enabled w \<and> proxyList w \<noteq> []
       \<and> proxy_currentIndex w < length (proxyList w)
       \<and> (\<forall>p\<in>set (proxyList w). buildAgent E (type p) (url p) \<noteq> None)
       \<and> (\<forall>a w'. \<not> fst (isProxyAlive_single E a w'))"
  then have l: "fst (getProxyAgent_loop E retries (proxy_currentIndex w) 0 w) = Inl AllProxiesFailed
       \<and> probes (snd (getProxyAgent_loop E retries (proxy_currentIndex w) 0 w)) =
           probes w + (retries * length (proxyList w) - 0)"
    by (intro getProxyAgent_loop_all_fail) simp_all
  from h l show "fst (getProxyAgent_single E retries w) = Inl AllProxiesFailed"
    by (simp add: getProxyAgent_single_def)
  from h l show "probes (snd (getProxyAgent_single E retries w)) =
            probes w + retries * length (proxyList w)"
    by (simp add: getProxyAgent_single_def)
qed

theorem getProxyAgent_exhausted_witness:
  "proxy_enabled ex_world \<and> proxyList ex_world \<noteq> []
   \<and> proxy_currentIndex ex_world < length (proxyList ex_world)
   \<and> list_all (\<lambda>p. buildAgent ex_env (type p) (url p) \<noteq> None) (proxyList ex_world)
   \<and> fst (getProxyAgent_single ex_env maxRetries ex_world) = Inl AllProxiesFailed
   \<and> probes (snd (getProxyAgent_single ex_env maxRetries ex_world)) = 9"
proof -
  have h1: "proxy_enabled ex_world" and h2: "proxyList ex_world \<noteq> []"
    and h3: "proxy_currentIndex ex_world < length (proxyList ex_world)"
    by (simp_all add: ex_world_def ex_pool_def)
  have h4: "\<forall>p\<in>set (proxyList ex_world). buildAgent ex_env (type p) (url p) \<noteq> None"
    by (simp add: buildAgent_def ex_env_def)
  have h5: "\<forall>a w'. \<not> fst (isProxyAlive_single ex_env a w')"
    by (simp add: isProxyAlive_single_def ex_env_def)
  have l: "list_all (\<lambda>p. buildAgent ex_env (type p) (url p) \<noteq> None) (proxyList ex_world)"
    using h4 by (simp add: list_all_iff)
  have p0: "probes ex_world = 0" "length (proxyList ex_world) = 3"
    by (simp_all add: probes_def ex_world_def ex_pool_def)
  from getProxyAgent_exhausted [of ex_env maxRetries ex_world] h1 h2 h3 h4 h5
  have "fst (getProxyAgent_single ex_env maxRetries ex_world) = Inl AllProxiesFailed
      \<and> probes (snd (getProxyAgent_single ex_env maxRetries ex_world)) =
          probes ex_world + maxRetries * length (proxyList ex_world)"
    by blast
  then have "fst (getProxyAgent_single ex_env maxRetries ex_world) = Inl AllProxiesFailed
      \<and> probes (snd (getProxyAgent_single ex_env maxRetries ex_world)) = 9"
    unfolding p0 by (simp add: maxRetries_def)
  with h1 h2 h3 l show ?thesis by blast
qed

lemma proxyOfLine_bad: "proxyOfLine ''['' = \<lparr>type = Http, url = ''http://[''\<rparr>"
  by (simp add: proxyOfLine_def startsWith_def includes_str_def)


lemma getProxyAgent_loop_not_built:
  assumes "createProxyAgent_single E w = (None, w1)" and "0 < retries" and "proxyList w \<noteq> []"
  shows "getProxyAgent_loop E retries initialIndex 0 w = (Inr None, w1)"
  using assms by (subst getProxyAgent_loop.simps) simp

text \<open>
  Without the condition that a transport is built for every descriptor the claim fails.
  In the pool loaded from the lines \<open>[\<close> and \<open>10.0.0.1:8080\<close>, with proxying enabled, the
  cursor on the first entry and every liveness check failing, the constructor throws on
  the first descriptor: \<open>getProxyAgent\<close> returns \<open>undefined\<close> without an error, having
  made no liveness check at all.
\<close>

theorem getProxyAgent_exhausted_counterexample:
  "proxy_enabled ex_bad_world \<and> proxyList ex_bad_world \<noteq> []
   \<and> proxy_currentIndex ex_bad_world < length (proxyList ex_bad_world)
   \<and> every_check_fails ex_bad_env
   \<and> fst (getProxyAgent_single ex_bad_env maxRetries ex_bad_world) = Inr None
   \<and> trace (snd (getProxyAgent_single ex_bad_env maxRetries ex_bad_world)) = []
   \<and> probes (snd (getProxyAgent_single ex_bad_env maxRetries ex_bad_world)) = 0"
proof -
  have h: "proxy_enabled ex_bad_world" "proxyList ex_bad_world \<noteq> []"
    "proxy_currentIndex ex_bad_world < length (proxyList ex_bad_world)"
    by (simp_all add: ex_bad_world_def ex_world_def)
  have f: "every_check_fails ex_bad_env"
    by (simp add: every_check_fails_def isProxyAlive_single_def ex_bad_env_def ex_env_def)
  have c: "createProxyAgent_single ex_bad_env ex_bad_world =
      (None, ex_bad_world\<lparr>proxy_currentIndex := 1, proxy_type := Http, proxy_url := ''http://[''\<rparr>)"
    by (simp add: createProxyAgent_single_def getNextProxy_def ex_bad_world_def ex_world_def
          proxyOfLine_bad buildAgent_def ex_bad_env_def)
  have g: "getProxyAgent_single ex_bad_env maxRetries ex_bad_world =
      (Inr None, ex_bad_world\<lparr>proxy_currentIndex := 1, proxy_type := Http, proxy_url := ''http://[''\<rparr>)"
    using getProxyAgent_loop_not_built [OF c, of maxRetries 0]
    by (simp add: getProxyAgent_single_def maxRetries_def ex_bad_world_def ex_world_def)
  have t: "trace (snd (getProxyAgent_single ex_bad_env maxRetries ex_bad_world)) = []"
    unfolding g by (simp add: ex_bad_world_def ex_world_def)
  have p: "probes (snd (getProxyAgent_single ex_bad_env maxRetries ex_bad_world)) = 0"
    unfolding probes_def t by simp
  from h f g t p show ?thesis by simp
qed

section \<open>Transport construction failures\<close>






section \<open>Upload phase: the running estimate\<close>

text \<open>
  C1 on the code. After the server message the running estimate is 12; the cutoff run of
  \<open>sendData\<close> assigns the client-side figure \<open>9994240 * 8 / (10 * 1000000) = 7.995392\<close>
  without comparing, and the phase ends with it. A later, lower server message does leave
  the estimate alone.
\<close>

theorem upload_cutoff_overwrites_estimate:
  "map_outcome speed (upload_run (meas_init 0) (take 3 ex_upload @ [OnClose])) = Resolved (Num 12)
   \<and> map_outcome speed (upload_run (meas_init 0) ex_upload) = Resolved (Num (7995392 / 1000000))
   \<and> map_outcome speed (upload_run (meas_init 0) ex_upload_error) = Resolved (Num 12)"
  by (simp add: ex_upload_def ex_upload_error_def meas_init_def duration_of_def client_speed_def
        js_div_def)

section \<open>The speed test as a whole\<close>

lemma performSpeedTest_caught:
  "fst (performSpeedTest_try acquire E w) = Inl e \<Longrightarrow>
   fst (performSpeedTest acquire E w) = Resolved \<lparr>downloadSpeed = Num 0, uploadSpeed = Num 0\<rparr>"
  by (cases "performSpeedTest_try acquire E w") (simp add: performSpeedTest_def)

lemma performSpeedTest_try_locate_failed:
  "fst (locate_server acquire E w) = Inl e \<Longrightarrow>
   performSpeedTest_try acquire E w = (Inl e, snd (locate_server acquire E w))"
  by (cases "locate_server acquire E w") (simp add: performSpeedTest_try_def)

lemma locate_server_acquire_failed:
  "fst (acquire w) = Inl e \<Longrightarrow> locate_server acquire E w = (Inl e, snd (acquire w))"
  by (cases "acquire w") (simp add: locate_server_def)

lemma locate_server_failed:
  assumes "acquire w = (Inr proxyAgent, w1)"
    and "fetch_locate E (trace w1) proxyAgent = NetworkError
       \<or> (\<exists>status body. fetch_locate E (trace w1) proxyAgent = Response False status body)
       \<or> (\<exists>status. fetch_locate E (trace w1) proxyAgent = Response True status None)
       \<or> (\<exists>status. fetch_locate E (trace w1) proxyAgent = Response True status (Some \<lparr>results = []\<rparr>))"
  shows "\<exists>e. locate_server acquire E w = (Inl e, w1\<lparr>trace := trace w1 @ [GetLocate proxyAgent]\<rparr>)"
  using assms by (auto simp: locate_server_def)

lemma performSpeedTest_discovery_failed:
  assumes "acquire w = (Inr proxyAgent, w1)"
    and "fetch_locate E (trace w1) proxyAgent = NetworkError
       \<or> (\<exists>status body. fetch_locate E (trace w1) proxyAgent = Response False status body)
       \<or> (\<exists>status. fetch_locate E (trace w1) proxyAgent = Response True status None)
       \<or> (\<exists>status. fetch_locate E (trace w1) proxyAgent = Response True status (Some \<lparr>results = []\<rparr>))"
  shows "performSpeedTest acquire E w =
           (Resolved \<lparr>downloadSpeed = Num 0, uploadSpeed = Num 0\<rparr>,
            w1\<lparr>trace := trace w1 @ [GetLocate proxyAgent]\<rparr>)"
proof -
  from assms have "\<exists>e. locate_server acquire E w =
      (Inl e, w1\<lparr>trace := trace w1 @ [GetLocate proxyAgent]\<rparr>)"
    by (rule locate_server_failed)
  then obtain e where
    l: "locate_server acquire E w = (Inl e, w1\<lparr>trace := trace w1 @ [GetLocate proxyAgent]\<rparr>)" by blast
  then show ?thesis by (simp add: performSpeedTest_def performSpeedTest_try_def)
qed

lemma performSpeedTest_connect_failed:
  assumes "locate_server acquire E w = (Inr (proxyAgent, server), w1)"
    and "urls server = None
       \<or> (\<exists>us. urls server = Some us \<and>
             (fst (download_phase E (us ''wss:///ndt/v7/download'') proxyAgent w1) = Inl Thrown
              \<or> (\<exists>d w2. download_phase E (us ''wss:///ndt/v7/download'') proxyAgent w1 = (Inr (Resolved d), w2)
                     \<and> fst (upload_phase E (us ''wss:///ndt/v7/upload'') proxyAgent w2) = Inl Thrown)))"
  shows "fst (performSpeedTest acquire E w) = Resolved \<lparr>downloadSpeed = Num 0, uploadSpeed = Num 0\<rparr>"
proof -
  have "\<exists>e. fst (performSpeedTest_try acquire E w) = Inl e"
    using assms by (auto simp: performSpeedTest_try_def split: prod.splits sum.splits outcome.splits)
  then show ?thesis using performSpeedTest_caught by blast
qed

lemma ws_connect_throws:
  "(ws_connect E u proxyAgent w = Inl Thrown) = (u = None \<or> (\<exists>s. u = Some s \<and> websocket_throws E s))"
  by (auto simp: ws_connect_def split: option.splits)

lemma phase_connect_failed:
  "fst (download_phase E u proxyAgent w) = Inl Thrown \<longleftrightarrow> ws_connect E u proxyAgent w = Inl Thrown"
  "fst (upload_phase E u proxyAgent w) = Inl Thrown \<longleftrightarrow> ws_connect E u proxyAgent w = Inl Thrown"
  by (auto simp: download_phase_def upload_phase_def ws_connect_def split: option.splits sum.splits)

lemma performSpeedTest_both_phases:
  assumes "locate_server acquire E w = (Inr (proxyAgent, server), w1)"
    and "urls server = Some us"
    and "us ''wss:///ndt/v7/download'' = Some du" and "\<not> websocket_throws E du"
    and "us ''wss:///ndt/v7/upload'' = Some uu" and "\<not> websocket_throws E uu"
    and "download_run (meas_init (download_created E)) (download_events E) = Resolved d"
    and "upload_run (meas_init (upload_created E)) (upload_events E) = Resolved u"
  shows "performSpeedTest acquire E w =
           (Resolved \<lparr>downloadSpeed = speed d, uploadSpeed = speed u\<rparr>,
            w1\<lparr>trace := trace w1 @
                  [WsConnect du (if proxy_enabled w1 then proxyAgent else None),
                   WsConnect uu (if proxy_enabled w1 then proxyAgent else None)]\<rparr>)"
  using assms
  by (simp add: performSpeedTest_def performSpeedTest_try_def download_phase_def upload_phase_def
        ws_connect_def)


lemma run_error_settles:
  "download_run st (OnError # rest) = Resolved st" "upload_run st (OnError # rest) = Resolved st"
  by simp_all

lemma getProxyAgent_disabled:
  "\<not> proxy_enabled w \<Longrightarrow> getProxyAgent_multi E retries w = (Inr None, w)"
  "\<not> proxy_enabled w \<Longrightarrow> getProxyAgent_single E retries w = (Inr None, w)"
  by (simp_all add: getProxyAgent_multi_def getProxyAgent_single_def)

lemma ex_upload_error_run:
  "upload_run (meas_init 0) ex_upload_error =
     Resolved \<lparr>startTime = 0, totalBytes = 9994240, speed = Num 12, sending = True, closeCalls = 0\<rparr>"
  by (simp add: ex_upload_error_def meas_init_def duration_of_def js_div_def)

lemma ex_upload_run:
  "upload_run (meas_init 0) ex_upload =
     Resolved \<lparr>startTime = 0, totalBytes = 9994240, speed = Num (7995392 / 1000000),
               sending = False, closeCalls = 1\<rparr>"
  by (simp add: ex_upload_def meas_init_def duration_of_def js_div_def client_speed_def)

lemma ex_server_urls:
  "urls ex_server = Some [''wss:///ndt/v7/download'' \<mapsto> ''wss://mlab1/ndt/v7/download'',
                          ''wss:///ndt/v7/upload'' \<mapsto> ''wss://mlab1/ndt/v7/upload'']"
  "[''wss:///ndt/v7/download'' \<mapsto> ''wss://mlab1/ndt/v7/download'',
    ''wss:///ndt/v7/upload'' \<mapsto> ''wss://mlab1/ndt/v7/upload''] ''wss:///ndt/v7/download'' =
     Some ''wss://mlab1/ndt/v7/download''"
  "[''wss:///ndt/v7/download'' \<mapsto> ''wss://mlab1/ndt/v7/download'',
    ''wss:///ndt/v7/upload'' \<mapsto> ''wss://mlab1/ndt/v7/upload''] ''wss:///ndt/v7/upload'' =
     Some ''wss://mlab1/ndt/v7/upload''"
  by (simp_all add: ex_server_def)

text \<open>
  C6, as the code has it. An exception in the body of \<open>performSpeedTest\<close> (the proxy
  acquisition, the locate request or its answer, a server without \<open>urls\<close>, the
  construction of either connection) gives the result \<open>{0, 0}\<close>, also when the download
  phase had already produced a speed. An \<open>error\<close> event settles its phase with the
  variables as they are, so with the speed assigned so far. When both connections are
  made and both phases settle, in whatever way, the result holds the speed of each.
\<close>

theorem performSpeedTest_degrades:
  "(fst (acquire w) = Inl e \<longrightarrow>
      fst (performSpeedTest acquire E w) = Resolved \<lparr>downloadSpeed = Num 0, uploadSpeed = Num 0\<rparr>)
   \<and> (acquire w = (Inr proxyAgent, w1) \<and>
       (fetch_locate E (trace w1) proxyAgent = NetworkError
        \<or> (\<exists>status body. fetch_locate E (trace w1) proxyAgent = Response False status body)
        \<or> (\<exists>status. fetch_locate E (trace w1) proxyAgent = Response True status None)
        \<or> (\<exists>status. fetch_locate E (trace w1) proxyAgent = Response True status (Some \<lparr>results = []\<rparr>)))
      \<longrightarrow> performSpeedTest acquire E w =
           (Resolved \<lparr>downloadSpeed = Num 0, uploadSpeed = Num 0\<rparr>,
            w1\<lparr>trace := trace w1 @ [GetLocate proxyAgent]\<rparr>))
   \<and> (locate_server acquire E w = (Inr (proxyAgent, server), w1) \<and>
       (urls server = None
        \<or> (\<exists>us. urls server = Some us \<and>
             (fst (download_phase E (us ''wss:///ndt/v7/download'') proxyAgent w1) = Inl Thrown
              \<or> (\<exists>d w2. download_phase E (us ''wss:///ndt/v7/download'') proxyAgent w1 = (Inr (Resolved d), w2)
                     \<and> fst (upload_phase E (us ''wss:///ndt/v7/upload'') proxyAgent w2) = Inl Thrown))))
      \<longrightarrow> fst (performSpeedTest acquire E w) = Resolved \<lparr>downloadSpeed = Num 0, uploadSpeed = Num 0\<rparr>)
   \<and> download_run st (OnError # rest) = Resolved st
   \<and> upload_run st (OnError # rest) = Resolved st
   \<and> (locate_server acquire E w = (Inr (proxyAgent, server), w1) \<and> urls server = Some us
       \<and> us ''wss:///ndt/v7/download'' = Some du \<and> \<not> websocket_throws E du
       \<and> us ''wss:///ndt/v7/upload'' = Some uu \<and> \<not> websocket_throws E uu
       \<and> download_run (meas_init (download_created E)) (download_events E) = Resolved d
       \<and> upload_run (meas_init (upload_created E)) (upload_events E) = Resolved u
      \<longrightarrow> performSpeedTest acquire E w =
           (Resolved \<lparr>downloadSpeed = speed d, uploadSpeed = speed u\<rparr>,
            w1\<lparr>trace := trace w1 @
                  [WsConnect du (if proxy_enabled w1 then proxyAgent else None),
                   WsConnect uu (if proxy_enabled w1 then proxyAgent else None)]\<rparr>))"
proof (intro conjI impI)
  assume a: "fst (acquire w) = Inl e"
  have "fst (performSpeedTest_try acquire E w) = Inl e"
    using a locate_server_acquire_failed [of acquire w e E]
      performSpeedTest_try_locate_failed [of acquire E w e] by simp
  then show "fst (performSpeedTest acquire E w) = Resolved \<lparr>downloadSpeed = Num 0, uploadSpeed = Num 0\<rparr>"
    by (rule performSpeedTest_caught)
next
  assume "acquire w = (Inr proxyAgent, w1) \<and>
       (fetch_locate E (trace w1) proxyAgent = NetworkError
        \<or> (\<exists>status body. fetch_locate E (trace w1) proxyAgent = Response False status body)
        \<or> (\<exists>status. fetch_locate E (trace w1) proxyAgent = Response True status None)
        \<or> (\<exists>status. fetch_locate E (trace w1) proxyAgent = Response True status (Some \<lparr>results = []\<rparr>)))"
  then show "performSpeedTest acquire E w =
           (Resolved \<lparr>downloadSpeed = Num 0, uploadSpeed = Num 0\<rparr>,
            w1\<lparr>trace := trace w1 @ [GetLocate proxyAgent]\<rparr>)"
    using performSpeedTest_discovery_failed [of acquire w proxyAgent w1 E] by blast
next
  assume "locate_server acquire E w = (Inr (proxyAgent, server), w1) \<and>
       (urls server = None
        \<or> (\<exists>us. urls server = Some us \<and>
             (fst (download_phase E (us ''wss:///ndt/v7/download'') proxyAgent w1) = Inl Thrown
              \<or> (\<exists>d w2. download_phase E (us ''wss:///ndt/v7/download'') proxyAgent w1 = (Inr (Resolved d), w2)
                     \<and> fst (upload_phase E (us ''wss:///ndt/v7/upload'') proxyAgent w2) = Inl Thrown))))"
  then show "fst (performSpeedTest acquire E w) = Resolved \<lparr>downloadSpeed = Num 0, uploadSpeed = Num 0\<rparr>"
    using performSpeedTest_connect_failed [of acquire E w proxyAgent server w1] by blast
next
  show "download_run st (OnError # rest) = Resolved st" by simp
  show "upload_run st (OnError # rest) = Resolved st" by simp
next
  assume "locate_server acquire E w = (Inr (proxyAgent, server), w1) \<and> urls server = Some us
       \<and> us ''wss:///ndt/v7/download'' = Some du \<and> \<not> websocket_throws E du
       \<and> us ''wss:///ndt/v7/upload'' = Some uu \<and> \<not> websocket_throws E uu
       \<and> download_run (meas_init (download_created E)) (download_events E) = Resolved d
       \<and> upload_run (meas_init (upload_created E)) (upload_events E) = Resolved u"
  then show "performSpeedTest acquire E w =
           (Resolved \<lparr>downloadSpeed = speed d, uploadSpeed = speed u\<rparr>,
            w1\<lparr>trace := trace w1 @
                  [WsConnect du (if proxy_enabled w1 then proxyAgent else None),
                   WsConnect uu (if proxy_enabled w1 then proxyAgent else None)]\<rparr>)"
    using performSpeedTest_both_phases [of acquire E w proxyAgent server w1 us du uu d u] by blast
qed


lemma ex_download_ok_run:
  "download_run (meas_init 0) (OnOpen 0 # ex_frames @ [OnBinary 500000 10000, OnClose]) =
     Resolved \<lparr>startTime = 0, totalBytes = 12500000, speed = Num 10, sending = False, closeCalls = 1\<rparr>"
  by (simp add: ex_frames_def meas_init_def duration_of_def client_speed_def Let_def)

lemma ex_locate_ok:
  assumes "fetch_locate E = (\<lambda>h a. Response True 200 (Some \<lparr>results = [ex_server]\<rparr>))"
  shows "locate_server (getProxyAgent_multi E maxRetries) E ex_direct =
           (Inr (None, ex_server), ex_direct\<lparr>trace := [GetLocate None]\<rparr>)"
  using assms by (simp add: locate_server_def getProxyAgent_multi_def ex_direct_def)

theorem performSpeedTest_degrades_witness:
  "performSpeedTest (getProxyAgent_multi ex_env maxRetries) ex_env ex_direct =
     (Resolved \<lparr>downloadSpeed = Num 0, uploadSpeed = Num 0\<rparr>, ex_direct\<lparr>trace := [GetLocate None]\<rparr>)
   \<and> performSpeedTest (getProxyAgent_multi ex_env_ok maxRetries) ex_env_ok ex_direct =
     (Resolved \<lparr>downloadSpeed = Num 10, uploadSpeed = Num (7995392 / 1000000)\<rparr>,
      ex_direct\<lparr>trace := [GetLocate None, WsConnect ''wss://mlab1/ndt/v7/download'' None,
                              WsConnect ''wss://mlab1/ndt/v7/upload'' None]\<rparr>)"
proof -
  have a: "getProxyAgent_multi ex_env maxRetries ex_direct = (Inr None, ex_direct)"
    by (simp add: getProxyAgent_multi_def ex_direct_def)
  have f: "fetch_locate ex_env (trace ex_direct) None = Response True 200 (Some \<lparr>results = []\<rparr>)"
    by (simp add: ex_env_def)
  have t: "trace ex_direct = []" "\<not> proxy_enabled ex_direct" by (simp_all add: ex_direct_def)
  have 1: "performSpeedTest (getProxyAgent_multi ex_env maxRetries) ex_env ex_direct =
     (Resolved \<lparr>downloadSpeed = Num 0, uploadSpeed = Num 0\<rparr>, ex_direct\<lparr>trace := [GetLocate None]\<rparr>)"
    using performSpeedTest_degrades [where acquire = "getProxyAgent_multi ex_env maxRetries"
        and w = ex_direct and E = ex_env and proxyAgent = None and ?w1.0 = ex_direct] a f t
    by simp
  have l: "locate_server (getProxyAgent_multi ex_env_ok maxRetries) ex_env_ok ex_direct =
           (Inr (None, ex_server), ex_direct\<lparr>trace := [GetLocate None]\<rparr>)"
    by (rule ex_locate_ok) (simp add: ex_env_ok_def)
  have e: "\<not> websocket_throws ex_env_ok ''wss://mlab1/ndt/v7/download''"
    "\<not> websocket_throws ex_env_ok ''wss://mlab1/ndt/v7/upload''"
    "download_created ex_env_ok = 0" "upload_created ex_env_ok = 0"
    "download_events ex_env_ok = OnOpen 0 # ex_frames @ [OnBinary 500000 10000, OnClose]"
    "upload_events ex_env_ok = ex_upload"
    by (simp_all add: ex_env_ok_def ex_env_def)
  have 2: "performSpeedTest (getProxyAgent_multi ex_env_ok maxRetries) ex_env_ok ex_direct =
     (Resolved \<lparr>downloadSpeed = Num 10, uploadSpeed = Num (7995392 / 1000000)\<rparr>,
      ex_direct\<lparr>trace := [GetLocate None, WsConnect ''wss://mlab1/ndt/v7/download'' None,
                              WsConnect ''wss://mlab1/ndt/v7/upload'' None]\<rparr>)"
    using performSpeedTest_degrades [where acquire = "getProxyAgent_multi ex_env_ok maxRetries"
        and w = ex_direct and E = ex_env_ok and proxyAgent = None
        and ?w1.0 = "ex_direct\<lparr>trace := [GetLocate None]\<rparr>" and server = ex_server
        and us = "[''wss:///ndt/v7/download'' \<mapsto> ''wss://mlab1/ndt/v7/download'',
                   ''wss:///ndt/v7/upload'' \<mapsto> ''wss://mlab1/ndt/v7/upload'']"
        and du = "''wss://mlab1/ndt/v7/download''" and uu = "''wss://mlab1/ndt/v7/upload''"
        and d = "\<lparr>startTime = 0, totalBytes = 12500000, speed = Num 10, sending = False, closeCalls = 1\<rparr>"
        and u = "\<lparr>startTime = 0, totalBytes = 9994240, speed = Num (7995392 / 1000000),
               sending = False, closeCalls = 1\<rparr>"]
      l e ex_server_urls ex_download_ok_run ex_upload_run t
    by simp
  from 1 2 show ?thesis by blast
qed

text \<open>
  The claim fails where an \<open>error\<close> event follows an assignment of the speed. Here the
  download connection fails 800 ms after opening and the upload connection fails after a
  server message of 12 Mbit/s: the upload phase, ended by the error, yields 12 and not 0.
  A download connection failing after its cutoff message keeps its 10 likewise.
\<close>

theorem performSpeedTest_error_counterexample:
  "last (download_events ex_env_errors) = OnError \<and> last (upload_events ex_env_errors) = OnError
   \<and> fst (performSpeedTest (getProxyAgent_multi ex_env_errors maxRetries) ex_env_errors ex_direct) =
       Resolved \<lparr>downloadSpeed = Num 0, uploadSpeed = Num 12\<rparr>
   \<and> map_outcome speed (download_run (meas_init 0) [OnOpen 0, OnBinary 12500000 10000, OnError]) =
       Resolved (Num 10)"
proof -
  have l: "locate_server (getProxyAgent_multi ex_env_errors maxRetries) ex_env_errors ex_direct =
           (Inr (None, ex_server), ex_direct\<lparr>trace := [GetLocate None]\<rparr>)"
    by (rule ex_locate_ok) (simp add: ex_env_errors_def)
  have e: "\<not> websocket_throws ex_env_errors ''wss://mlab1/ndt/v7/download''"
    "\<not> websocket_throws ex_env_errors ''wss://mlab1/ndt/v7/upload''"
    "download_created ex_env_errors = 0" "upload_created ex_env_errors = 0"
    "download_events ex_env_errors = [OnOpen 0, OnBinary 1000000 800, OnError]"
    "upload_events ex_env_errors = ex_upload_error"
    by (simp_all add: ex_env_errors_def ex_env_def)
  have d: "download_run (meas_init 0) [OnOpen 0, OnBinary 1000000 800, OnError] =
      Resolved \<lparr>startTime = 0, totalBytes = 1000000, speed = Num 0, sending = False, closeCalls = 0\<rparr>"
    by (simp add: meas_init_def duration_of_def Let_def)
  have 1: "fst (performSpeedTest (getProxyAgent_multi ex_env_errors maxRetries) ex_env_errors ex_direct) =
       Resolved \<lparr>downloadSpeed = Num 0, uploadSpeed = Num 12\<rparr>"
    using performSpeedTest_both_phases [OF l ex_server_urls(1) ex_server_urls(2) e(1) ex_server_urls(3) e(2)]
      e d ex_upload_error_run by simp
  have 2: "map_outcome speed (download_run (meas_init 0) [OnOpen 0, OnBinary 12500000 10000, OnError]) =
       Resolved (Num 10)"
    by (simp add: meas_init_def duration_of_def client_speed_def Let_def)
  have 3: "last (download_events ex_env_errors) = OnError" "last (upload_events ex_env_errors) = OnError"
    by (simp_all add: e ex_upload_error_def)
  from 1 2 3 show ?thesis by blast
qed

section \<open>The account cycle after a failed discovery\<close>

lemma getProxyAgent_multi_loop_returns:
  "\<exists>a. fst (getProxyAgent_multi_loop E retries i w) = Inr a"
proof (induction E retries i w rule: getProxyAgent_multi_loop.induct)
  case (1 E retries i w)
  show ?case
  proof (cases "i < retries")
    case False
    then show ?thesis by (simp add: getProxyAgent_multi_loop.simps [of E retries i w])
  next
    case True
    show ?thesis
    proof (cases "createProxyAgent_multi E w")
      case None
      with True show ?thesis by (simp add: getProxyAgent_multi_loop.simps [of E retries i w])
    next
      case (Some a)
      show ?thesis
      proof (cases "fst (isProxyAlive_multi E a w)")
        case alive: True
        with True Some show ?thesis by (simp add: getProxyAgent_multi_loop.simps [of E retries i w])
      next
        case dead: False
        from "1.IH" [OF True Some dead] True Some dead show ?thesis
          by (simp add: getProxyAgent_multi_loop.simps [of E retries i w])
      qed
    qed
  qed
qed

lemma getProxyAgent_multi_returns: "\<exists>a. fst (getProxyAgent_multi E retries w) = Inr a"
  using getProxyAgent_multi_loop_returns [of E retries 0 w]
  by (simp add: getProxyAgent_multi_def)

lemma reportResults_posts:
  "\<exists>a pre. trace (snd (reportResults E d u loc w)) =
      pre @ [PostPoints a \<lparr>latitude = latitude loc, longitude = longitude loc,
                            download_speed = round2 d, upload_speed = round2 u\<rparr>]"
proof -
  obtain r w1 where g: "getProxyAgent_multi E maxRetries w = (r, w1)"
    by (cases "getProxyAgent_multi E maxRetries w")
  with getProxyAgent_multi_returns [of E maxRetries w] obtain a where r: "r = Inr a" by auto
  have "trace (snd (reportResults E d u loc w)) =
      trace w1 @ [PostPoints a \<lparr>latitude = latitude loc, longitude = longitude loc,
                            download_speed = round2 d, upload_speed = round2 u\<rparr>]"
    using g r
    by (simp add: reportResults_def reportResults_try_def Let_def
          split: response.splits option.splits)
  then show ?thesis by blast
qed


lemma getProxyAgent_multi_loop_no_ws:
  "filter is_WsConnect (trace (snd (getProxyAgent_multi_loop E retries i w))) =
   filter is_WsConnect (trace w)"
proof (induction E retries i w rule: getProxyAgent_multi_loop.induct)
  case (1 E retries i w)
  show ?case
  proof (cases "i < retries")
    case False
    then show ?thesis by (simp add: getProxyAgent_multi_loop.simps [of E retries i w])
  next
    case True
    show ?thesis
    proof (cases "createProxyAgent_multi E w")
      case None
      with True show ?thesis by (simp add: getProxyAgent_multi_loop.simps [of E retries i w])
    next
      case (Some a)
      show ?thesis
      proof (cases "fst (isProxyAlive_multi E a w)")
        case alive: True
        with True Some show ?thesis
          by (simp add: getProxyAgent_multi_loop.simps [of E retries i w] isProxyAlive_multi_def)
      next
        case dead: False
        from "1.IH" [OF True Some dead] True Some dead show ?thesis
          by (simp add: getProxyAgent_multi_loop.simps [of E retries i w] isProxyAlive_multi_def)
      qed
    qed
  qed
qed

lemma getProxyAgent_multi_no_ws:
  "filter is_WsConnect (trace (snd (getProxyAgent_multi E retries w))) = filter is_WsConnect (trace w)"
  by (simp add: getProxyAgent_multi_def getProxyAgent_multi_loop_no_ws)

lemma validateToken_multi_no_ws:
  "filter is_WsConnect (trace (snd (validateToken_multi E token now w))) = filter is_WsConnect (trace w)"
  using getProxyAgent_multi_no_ws [of E maxRetries w]
  by (auto simp: validateToken_multi_def validateToken_try_def
        split: option.splits prod.splits sum.splits response.splits)

lemma displayAccountInfo_no_ws:
  "filter is_WsConnect (trace (displayAccountInfo E w)) = filter is_WsConnect (trace w)"
  using getProxyAgent_multi_no_ws [of E maxRetries w]
  by (auto simp: displayAccountInfo_def split: prod.splits sum.splits)

lemma reportResults_no_ws:
  "filter is_WsConnect (trace (snd (reportResults E d u loc w))) = filter is_WsConnect (trace w)"
  using getProxyAgent_multi_no_ws [of E maxRetries w]
  by (auto simp: reportResults_def reportResults_try_def Let_def
        split: prod.splits sum.splits response.splits option.splits)

text \<open>
  C7, as the code has it. In a cycle of the multi-account client whose token is valid and
  whose locate request is answered without success or with no server, \<open>performSpeedTest\<close>
  returns \<open>{0, 0}\<close> having done nothing beyond the proxy acquisition and the locate
  request, and no measurement connection is opened anywhere in the cycle. The cycle is
  not aborted: \<open>processAccount\<close> goes on to \<open>reportResults\<close> with both speeds 0, its
  result is that of the report, and the last request of the cycle is the report of
  \<open>0\<close> and \<open>0\<close> at the generated location.
\<close>

theorem processAccount_discovery_failed:
  assumes "validateToken_multi E token now w = (Inr True, w1)"
    and "getProxyAgent_multi E maxRetries (displayAccountInfo E w1) = (Inr proxyAgent, w3)"
    and "(\<exists>status body. fetch_locate E (trace w3) proxyAgent = Response False status body)
       \<or> (\<exists>status. fetch_locate E (trace w3) proxyAgent = Response True status (Some \<lparr>results = []\<rparr>))"
  shows "performSpeedTest (getProxyAgent_multi E maxRetries) E (displayAccountInfo E w1) =
           (Resolved \<lparr>downloadSpeed = Num 0, uploadSpeed = Num 0\<rparr>,
            w3\<lparr>trace := trace w3 @ [GetLocate proxyAgent]\<rparr>)
       \<and> processAccount E token now r1 r2 w =
           (Resolved (case fst (reportResults E (Num 0) (Num 0) (generateRandomLocation r1 r2)
                                  (w3\<lparr>trace := trace w3 @ [GetLocate proxyAgent]\<rparr>)) of
                        None \<Rightarrow> False | Some result \<Rightarrow> success result),
            snd (reportResults E (Num 0) (Num 0) (generateRandomLocation r1 r2)
                   (w3\<lparr>trace := trace w3 @ [GetLocate proxyAgent]\<rparr>)))
       \<and> (\<exists>a pre. trace (snd (processAccount E token now r1 r2 w)) =
             pre @ [PostPoints a \<lparr>latitude = latitude (generateRandomLocation r1 r2),
                                   longitude = longitude (generateRandomLocation r1 r2),
                                   download_speed = Num 0, upload_speed = Num 0\<rparr>])
       \<and> filter is_WsConnect (trace (snd (processAccount E token now r1 r2 w))) =
           filter is_WsConnect (trace w)"
proof -
  let ?w4 = "w3\<lparr>trace := trace w3 @ [GetLocate proxyAgent]\<rparr>"
  let ?loc = "generateRandomLocation r1 r2"
  let ?rep = "reportResults E (Num 0) (Num 0) ?loc ?w4"
  have 1: "performSpeedTest (getProxyAgent_multi E maxRetries) E (displayAccountInfo E w1) =
           (Resolved \<lparr>downloadSpeed = Num 0, uploadSpeed = Num 0\<rparr>, ?w4)"
    using assms(2,3)
    by (intro performSpeedTest_discovery_failed [where acquire = "getProxyAgent_multi E maxRetries"]) auto
  have 2: "processAccount E token now r1 r2 w =
      (Resolved (case fst ?rep of None \<Rightarrow> False | Some result \<Rightarrow> success result), snd ?rep)"
    using assms(1) 1
    by (cases ?rep) (simp add: processAccount_def Let_def split: option.splits)
  have 3: "\<exists>a pre. trace (snd (processAccount E token now r1 r2 w)) =
             pre @ [PostPoints a \<lparr>latitude = latitude ?loc, longitude = longitude ?loc,
                                   download_speed = Num 0, upload_speed = Num 0\<rparr>]"
    unfolding 2 using reportResults_posts [of E "Num 0" "Num 0" ?loc ?w4]
    by (simp add: Math_round_def)
  have "filter is_WsConnect (trace (snd ?rep)) = filter is_WsConnect (trace ?w4)"
    by (rule reportResults_no_ws)
  also have "\<dots> = filter is_WsConnect (trace w3)" by simp
  also have "\<dots> = filter is_WsConnect (trace (displayAccountInfo E w1))"
    using getProxyAgent_multi_no_ws [of E maxRetries "displayAccountInfo E w1"] assms(2) by simp
  also have "\<dots> = filter is_WsConnect (trace w1)" by (rule displayAccountInfo_no_ws)
  also have "\<dots> = filter is_WsConnect (trace w)"
    using validateToken_multi_no_ws [of E token now w] assms(1) by simp
  finally have 4: "filter is_WsConnect (trace (snd (processAccount E token now r1 r2 w))) =
           filter is_WsConnect (trace w)"
    unfolding 2 by simp
  from 1 2 3 4 show ?thesis by blast
qed


lemma ex_cycle_start:
  assumes "atob_JSON_parse E = atob_JSON_parse ex_env" and "fetch_profile E = fetch_profile ex_env"
  shows "validateToken_multi E ''h.91.s'' 1700000000000 ex_direct =
           (Inr True, ex_direct\<lparr>trace := [GetProfile None]\<rparr>)"
    and "displayAccountInfo E (ex_direct\<lparr>trace := [GetProfile None]\<rparr>) =
           ex_direct\<lparr>trace := [GetProfile None, GetProfile None]\<rparr>"
    and "getProxyAgent_multi E maxRetries (ex_direct\<lparr>trace := [GetProfile None, GetProfile None]\<rparr>) =
           (Inr None, ex_direct\<lparr>trace := [GetProfile None, GetProfile None]\<rparr>)"
  using assms
  by (simp_all add: validateToken_multi_def validateToken_try_def getProxyAgent_multi_def
        displayAccountInfo_def token_expired_def ex_env_def ex_direct_def)

lemma ex_report_zero:
  assumes "post_points E = post_points ex_env"
  shows "reportResults E (Num 0) (Num 0) (generateRandomLocation (1 / 2) (1 / 2))
           (ex_direct\<lparr>trace := [GetProfile None, GetProfile None, GetLocate None]\<rparr>) =
         (Some \<lparr>success = True, message = None\<rparr>,
          ex_direct\<lparr>trace := [GetProfile None, GetProfile None, GetLocate None,
             PostPoints None \<lparr>latitude = 35775 / 1000, longitude = 104355 / 1000,
                               download_speed = Num 0, upload_speed = Num 0\<rparr>]\<rparr>)"
  using assms
  by (simp add: reportResults_def reportResults_try_def getProxyAgent_multi_def ex_env_def
        ex_direct_def generateRandomLocation_def Math_round_def Let_def)

theorem processAccount_discovery_failed_witness:
  "validateToken_multi ex_env ''h.91.s'' 1700000000000 ex_direct =
      (Inr True, ex_direct\<lparr>trace := [GetProfile None]\<rparr>)
   \<and> fetch_locate ex_env [GetProfile None, GetProfile None] None =
      Response True 200 (Some \<lparr>results = []\<rparr>)
   \<and> processAccount ex_env ''h.91.s'' 1700000000000 (1 / 2) (1 / 2) ex_direct =
      (Resolved True,
       ex_direct\<lparr>trace := [GetProfile None, GetProfile None, GetLocate None,
          PostPoints None \<lparr>latitude = 35775 / 1000, longitude = 104355 / 1000,
                            download_speed = Num 0, upload_speed = Num 0\<rparr>]\<rparr>)"
proof -
  note s = ex_cycle_start [of ex_env, OF refl refl]
  have f: "fetch_locate ex_env [GetProfile None, GetProfile None] None =
      Response True 200 (Some \<lparr>results = []\<rparr>)"
    by (simp add: ex_env_def)
  have h3: "(\<exists>status body. fetch_locate ex_env
               (trace (ex_direct\<lparr>trace := [GetProfile None, GetProfile None]\<rparr>)) None =
               Response False status body)
       \<or> (\<exists>status. fetch_locate ex_env
               (trace (ex_direct\<lparr>trace := [GetProfile None, GetProfile None]\<rparr>)) None =
               Response True status (Some \<lparr>results = []\<rparr>))"
    using f by simp
  have h2: "getProxyAgent_multi ex_env maxRetries
              (displayAccountInfo ex_env (ex_direct\<lparr>trace := [GetProfile None]\<rparr>)) =
            (Inr None, ex_direct\<lparr>trace := [GetProfile None, GetProfile None]\<rparr>)"
    using s(2,3) by simp
  from processAccount_discovery_failed [OF s(1) h2 h3, of "1 / 2" "1 / 2"]
  have "processAccount ex_env ''h.91.s'' 1700000000000 (1 / 2) (1 / 2) ex_direct =
      (Resolved True,
       ex_direct\<lparr>trace := [GetProfile None, GetProfile None, GetLocate None,
          PostPoints None \<lparr>latitude = 35775 / 1000, longitude = 104355 / 1000,
                            download_speed = Num 0, upload_speed = Num 0\<rparr>]\<rparr>)"
    using ex_report_zero [of ex_env, OF refl] by simp
  with s(1) f show ?thesis by blast
qed

text \<open>
  The claim fails on a cycle of the multi-account client with a valid token, a direct
  connection and a locate service answering 503: the cycle is not aborted. No measurement
  connection is opened, but the report is submitted, with both speeds 0, and the cycle
  ends as a success.
\<close>

theorem processAccount_discovery_counterexample:
  "fetch_locate ex_env_503 [GetProfile None, GetProfile None] None = Response False 503 None
   \<and> processAccount ex_env_503 ''h.91.s'' 1700000000000 (1 / 2) (1 / 2) ex_direct =
      (Resolved True,
       ex_direct\<lparr>trace := [GetProfile None, GetProfile None, GetLocate None,
          PostPoints None \<lparr>latitude = 35775 / 1000, longitude = 104355 / 1000,
                            download_speed = Num 0, upload_speed = Num 0\<rparr>]\<rparr>)"
proof -
  have e: "atob_JSON_parse ex_env_503 = atob_JSON_parse ex_env"
    "fetch_profile ex_env_503 = fetch_profile ex_env" "post_points ex_env_503 = post_points ex_env"
    by (simp_all add: ex_env_503_def)
  note s = ex_cycle_start [OF e(1,2)]
  have f: "fetch_locate ex_env_503 [GetProfile None, GetProfile None] None = Response False 503 None"
    by (simp add: ex_env_503_def)
  have p: "performSpeedTest (getProxyAgent_multi ex_env_503 maxRetries) ex_env_503
             (ex_direct\<lparr>trace := [GetProfile None, GetProfile None]\<rparr>) =
           (Resolved \<lparr>downloadSpeed = Num 0, uploadSpeed = Num 0\<rparr>,
            ex_direct\<lparr>trace := [GetProfile None, GetProfile None, GetLocate None]\<rparr>)"
    using s(3) f
    by (simp add: performSpeedTest_def performSpeedTest_try_def locate_server_def)
  have "processAccount ex_env_503 ''h.91.s'' 1700000000000 (1 / 2) (1 / 2) ex_direct =
      (Resolved True,
       ex_direct\<lparr>trace := [GetProfile None, GetProfile None, GetLocate None,
          PostPoints None \<lparr>latitude = 35775 / 1000, longitude = 104355 / 1000,
                            download_speed = Num 0, upload_speed = Num 0\<rparr>]\<rparr>)"
    using s(1,2) p ex_report_zero [OF e(3)]
    by (simp add: processAccount_def Let_def)
  with f show ?thesis by blast
qed

section \<open>Further properties of the upload phase and of proxy acquisition\<close>

lemma upload_on_server_message:
  assumes "ElapsedTime tcpInfo \<noteq> 0" and "speed st = Num s"
  shows "upload_on (OnText (Measurement (Some tcpInfo))) st =
           st\<lparr>speed := Num (max s (server_estimate tcpInfo))\<rparr>"
proof (cases "server_estimate tcpInfo > s")
  case True
  then show ?thesis using assms by (simp add: js_div_def server_estimate_def Let_def max_def)
next
  case False
  then have "st\<lparr>speed := Num (max s (server_estimate tcpInfo))\<rparr> = st"
    using assms(2) by (simp add: max_def)
  then show ?thesis using False assms by (simp add: js_div_def server_estimate_def Let_def)
qed

text \<open>
  The part of the maximum rule that the upload phase keeps: from any state with a finite
  speed, server messages (with a non-zero elapsed time) followed by the \<open>close\<close> event
  settle the phase with the greatest of that speed and the messages' estimates, all other
  variables untouched. In particular messages that arrive after the cutoff can raise the
  client-side figure and never lower it.
\<close>

theorem upload_messages_keep_maximum:
  assumes "\<forall>m\<in>set ms. ElapsedTime m \<noteq> 0" and "speed st = Num s"
  shows "upload_run st (map (\<lambda>m. OnText (Measurement (Some m))) ms @ OnClose # rest) =
           Resolved (st\<lparr>speed := Num (fold max (map server_estimate ms) s)\<rparr>)"
  using assms
proof (induction ms arbitrary: st s)
  case Nil
  then have "st\<lparr>speed := Num s\<rparr> = st" by simp
  then show ?case by simp
next
  case (Cons m ms)
  let ?st1 = "st\<lparr>speed := Num (max s (server_estimate m))\<rparr>"
  have 1: "upload_on (OnText (Measurement (Some m))) st = ?st1"
    using Cons.prems by (intro upload_on_server_message) simp_all
  have "upload_run ?st1 (map (\<lambda>m. OnText (Measurement (Some m))) ms @ OnClose # rest) =
      Resolved (?st1\<lparr>speed := Num (fold max (map server_estimate ms) (max s (server_estimate m)))\<rparr>)"
    using Cons.prems by (intro Cons.IH) simp_all
  then show ?case using 1 by (simp add: max.commute)
qed

theorem upload_messages_keep_maximum_witness:
  "upload_run \<lparr>startTime = 0, totalBytes = 10000000, speed = Num 8, sending = False, closeCalls = 1\<rparr>
     [OnText (Measurement (Some \<lparr>BytesReceived = 7500000, ElapsedTime = 5000000\<rparr>)),
      OnText (Measurement (Some \<lparr>BytesReceived = 9000000, ElapsedTime = 8000000\<rparr>)),
      OnClose] =
   Resolved \<lparr>startTime = 0, totalBytes = 10000000, speed = Num 12, sending = False, closeCalls = 1\<rparr>"
proof -
  have h: "\<forall>m\<in>set [\<lparr>BytesReceived = 7500000, ElapsedTime = 5000000\<rparr>,
                      \<lparr>BytesReceived = 9000000, ElapsedTime = 8000000\<rparr>]. ElapsedTime m \<noteq> 0"
    by simp
  have s: "speed \<lparr>startTime = 0, totalBytes = 10000000, speed = Num 8, sending = False, closeCalls = 1\<rparr> = Num 8"
    by simp
  from upload_messages_keep_maximum [OF h s, of "[]"]
  show ?thesis by (simp add: server_estimate_def)
qed

text \<open>
  With proxying disabled or an empty pool, \<open>getProxyAgent\<close> of the single-account client
  returns \<open>undefined\<close>, the direct connection, and does nothing else.
\<close>

theorem getProxyAgent_direct:
  assumes "\<not> proxy_enabled w \<or> proxyList w = []"
  shows "getProxyAgent_single E retries w = (Inr None, w)"
  using assms by (auto simp: getProxyAgent_single_def)

theorem getProxyAgent_direct_witness:
  "proxyList ex_direct = [] \<and> getProxyAgent_single ex_env maxRetries ex_direct = (Inr None, ex_direct)"
proof -
  have h: "\<not> proxy_enabled ex_direct \<or> proxyList ex_direct = []" by (simp add: ex_direct_def)
  from getProxyAgent_direct [OF h] show ?thesis by (simp add: ex_direct_def)
qed

lemma getProxyAgent_multi_loop_all_fail:
  assumes "createProxyAgent_multi E w = Some a" and "\<forall>a w'. \<not> fst (isProxyAlive_multi E a w')"
  shows "fst (getProxyAgent_multi_loop E retries i w) = Inr None
       \<and> probes (snd (getProxyAgent_multi_loop E retries i w)) = probes w + (retries - i)"
  using assms
proof (induction "retries - i" arbitrary: i w)
  case 0
  then show ?case by (simp add: getProxyAgent_multi_loop.simps [of E retries i w])
next
  case (Suc k)
  let ?w1 = "(snd (isProxyAlive_multi E a w))
               \<lparr>trace := trace (snd (isProxyAlive_multi E a w)) @ [Sleep (1000 * (i + 1))]\<rparr>"
  from Suc.hyps(2) have lt: "i < retries" by simp
  have dead: "\<not> fst (isProxyAlive_multi E a w)" using Suc.prems(2) by blast
  have step: "getProxyAgent_multi_loop E retries i w = getProxyAgent_multi_loop E retries (i + 1) ?w1"
    using lt Suc.prems(1) dead by (subst getProxyAgent_multi_loop.simps) simp
  have c: "createProxyAgent_multi E ?w1 = Some a"
    using Suc.prems(1)
    by (auto simp: createProxyAgent_multi_def isProxyAlive_multi_def split: if_splits)
  have p: "probes ?w1 = Suc (probes w)" by (simp add: probes_def isProxyAlive_multi_def)
  have k: "k = retries - (i + 1)" using Suc.hyps(2) by simp
  from Suc.hyps(1) [OF k c Suc.prems(2)] show ?case
    unfolding step p using lt by simp
qed

text \<open>
  \<open>getProxyAgent\<close> of the multi-account client never throws. With proxying enabled, a
  proxy url for which an agent is built, and every liveness check failing, it makes
  \<open>retries\<close> checks and returns \<open>undefined\<close>: the caller goes on without a proxy.
\<close>

theorem getProxyAgent_multi_falls_back:
  "(\<exists>a. fst (getProxyAgent_multi E retries w) = Inr a)
   \<and> (proxy_enabled w \<and> createProxyAgent_multi E w \<noteq> None
       \<and> (\<forall>a w'. \<not> fst (isProxyAlive_multi E a w'))
      \<longrightarrow> fst (getProxyAgent_multi E retries w) = Inr None
        \<and> probes (snd (getProxyAgent_multi E retries w)) = probes w + retries)"
proof (intro conjI impI)
  show "\<exists>a. fst (getProxyAgent_multi E retries w) = Inr a" by (rule getProxyAgent_multi_returns)
next
  assume h: "proxy_enabled w \<and> createProxyAgent_multi E w \<noteq> None
       \<and> (\<forall>a w'. \<not> fst (isProxyAlive_multi E a w'))"
  then obtain a where a: "createProxyAgent_multi E w = Some a" by auto
  from getProxyAgent_multi_loop_all_fail [OF a, of retries 0] h
  have l: "fst (getProxyAgent_multi_loop E retries 0 w) = Inr None
       \<and> probes (snd (getProxyAgent_multi_loop E retries 0 w)) = probes w + (retries - 0)"
    by blast
  from h l show "fst (getProxyAgent_multi E retries w) = Inr None"
    by (simp add: getProxyAgent_multi_def)
  from h l show "probes (snd (getProxyAgent_multi E retries w)) = probes w + retries"
    by (simp add: getProxyAgent_multi_def)
qed

theorem getProxyAgent_multi_falls_back_witness:
  "proxy_enabled (ex_world\<lparr>proxy_url := ''http://10.0.0.1:8080''\<rparr>)
   \<and> createProxyAgent_multi ex_env (ex_world\<lparr>proxy_url := ''http://10.0.0.1:8080''\<rparr>) =
       Some (HttpsProxyAgent ''http://10.0.0.1:8080'')
   \<and> fst (getProxyAgent_multi ex_env maxRetries (ex_world\<lparr>proxy_url := ''http://10.0.0.1:8080''\<rparr>)) = Inr None
   \<and> probes (snd (getProxyAgent_multi ex_env maxRetries (ex_world\<lparr>proxy_url := ''http://10.0.0.1:8080''\<rparr>))) = 3"
proof -
  let ?w = "ex_world\<lparr>proxy_url := ''http://10.0.0.1:8080''\<rparr>"
  have h1: "proxy_enabled ?w" by (simp add: ex_world_def)
  have c: "createProxyAgent_multi ex_env ?w = Some (HttpsProxyAgent ''http://10.0.0.1:8080'')"
    by (simp add: createProxyAgent_multi_def buildAgent_def ex_world_def ex_env_def)
  have h3: "\<forall>a w'. \<not> fst (isProxyAlive_multi ex_env a w')"
    by (simp add: isProxyAlive_multi_def ex_env_def)
  have p0: "probes ?w = 0" by (simp add: probes_def ex_world_def)
  from getProxyAgent_multi_falls_back [of ex_env maxRetries ?w] h1 c h3
  have "fst (getProxyAgent_multi ex_env maxRetries ?w) = Inr None
      \<and> probes (snd (getProxyAgent_multi ex_env maxRetries ?w)) = probes ?w + maxRetries"
    by simp
  then have "fst (getProxyAgent_multi ex_env maxRetries ?w) = Inr None
      \<and> probes (snd (getProxyAgent_multi ex_env maxRetries ?w)) = 3"
    unfolding p0 by (simp add: maxRetries_def)
  with h1 c show ?thesis by blast
qed

end
